theory Spec2Isabelle
  imports Main
begin

section \<open>Python values that the test engine handles\<close>

text \<open>
  A shallow embedding of \<^verbatim>\<open>swallow.py\<close>. Python classes are modelled by their name and
  their base classes, so that \<^verbatim>\<open>type(e) != expected\<close> (exact equality) and
  \<^verbatim>\<open>except Exception\<close> (an \<^verbatim>\<open>isinstance\<close> test, i.e. subclassing) are different
  relations, as they are in Python.
\<close>

datatype pyclass = PyClass (cls_name: string) (cls_bases: "pyclass list")

fun issubclass :: "pyclass \<Rightarrow> pyclass \<Rightarrow> bool" where
  "issubclass (PyClass n bs) d = (PyClass n bs = d \<or> list_ex (\<lambda>b. issubclass b d) bs)"

definition BaseException :: pyclass where
  "BaseException = PyClass ''BaseException'' []"

definition Exception :: pyclass where
  "Exception = PyClass ''Exception'' [BaseException]"

definition KeyboardInterrupt :: pyclass where
  "KeyboardInterrupt = PyClass ''KeyboardInterrupt'' [BaseException]"

definition SystemExit :: pyclass where
  "SystemExit = PyClass ''SystemExit'' [BaseException]"

definition TypeError :: pyclass where
  "TypeError = PyClass ''TypeError'' [Exception]"

definition ValueError :: pyclass where
  "ValueError = PyClass ''ValueError'' [Exception]"

definition AttributeError :: pyclass where
  "AttributeError = PyClass ''AttributeError'' [Exception]"

definition LookupError :: pyclass where
  "LookupError = PyClass ''LookupError'' [Exception]"

definition IndexError :: pyclass where
  "IndexError = PyClass ''IndexError'' [LookupError]"

definition OSError :: pyclass where
  "OSError = PyClass ''OSError'' [Exception]"

definition ArithmeticError :: pyclass where
  "ArithmeticError = PyClass ''ArithmeticError'' [Exception]"

definition ZeroDivisionError :: pyclass where
  "ZeroDivisionError = PyClass ''ZeroDivisionError'' [ArithmeticError]"

text \<open>
  A value bound in a stack frame, seen through the three questions that
  \<^verbatim>\<open>get_meaningful_expression\<close> asks of it: \<^verbatim>\<open>callable(v)\<close>, \<^verbatim>\<open>v.__name__\<close>
  (\<open>None\<close> when the attribute is missing and Python raises \<^verbatim>\<open>AttributeError\<close>) and
  \<^verbatim>\<open>repr(v)\<close>.
\<close>

record pyvalue =
  v_callable :: bool
  v_name :: "string option"
  v_repr :: string

text \<open>
  One entry of a traceback: \<^verbatim>\<open>tb_lineno\<close>, the frame's \<^verbatim>\<open>f_locals\<close> and
  \<^verbatim>\<open>f_globals\<close>, and the frame's code object (an identifier; the source lookup of
  \<^verbatim>\<open>inspect\<close> is keyed on it). A traceback is the list of its entries, outermost first;
  Python's \<^verbatim>\<open>None\<close> traceback is the empty list and \<^verbatim>\<open>tb.tb_next\<close> is the tail.
\<close>

record tb_entry =
  tb_lineno :: int
  f_locals :: "string \<rightharpoonup> pyvalue"
  f_globals :: "string \<rightharpoonup> pyvalue"
  f_code :: nat

type_synonym traceback = "tb_entry list"

text \<open>
  A raised exception: its class, its message and the traceback entries of the frames
  below the frame that catches it (empty when the exception is raised by a callee that
  has no Python frame, for instance a built-in, or by the call expression itself).
\<close>

record exc =
  exc_type :: pyclass
  exc_msg :: string
  exc_tb :: traceback

definition isinstance :: "exc \<Rightarrow> pyclass \<Rightarrow> bool" where
  "isinstance e c = issubclass (exc_type e) c"

definition raise :: "pyclass \<Rightarrow> string \<Rightarrow> exc" where
  "raise c m = \<lparr>exc_type = c, exc_msg = m, exc_tb = []\<rparr>"

text \<open>
  \<^verbatim>\<open>sys.exc_info()\<close> inside an \<^verbatim>\<open>except\<close> clause: the triple (type, value, traceback).
  The traceback starts with the entry of the frame that caught the exception.
\<close>

type_synonym exc_info = "pyclass \<times> exc \<times> traceback"

definition catching_frame :: tb_entry where
  "catching_frame = \<lparr>tb_lineno = 0, f_locals = Map.empty, f_globals = Map.empty, f_code = 0\<rparr>"

definition sys_exc_info :: "exc \<Rightarrow> exc_info" where
  "sys_exc_info e = (exc_type e, e, catching_frame # exc_tb e)"

section \<open>The process state\<close>

text \<open>
  File objects are identified by a number. \<open>StdStream\<close> is the stream the process
  started with, \<open>NullFile k\<close> the \<open>k\<close>-th file object opened on \<^verbatim>\<open>os.devnull\<close>,
  \<open>UserFile k\<close> any other file object of the client's. \<^verbatim>\<open>sys.stdout\<close> is always bound
  to a file object, so that \<^verbatim>\<open>sys.stdout.close()\<close> does not raise; closing a file
  that is closed already does nothing.

  The state holds the binding of \<^verbatim>\<open>sys.stdout\<close>, the log of everything written through
  \<^verbatim>\<open>print\<close> (with the file object it went to), the lines written to \<^verbatim>\<open>sys.stderr\<close>,
  the file objects closed so far, the counter for new file objects, and the client
  program's own state \<open>user\<close>.
\<close>

datatype stream = StdStream | NullFile nat | UserFile nat

record 'u world =
  sys_stdout :: stream
  out :: "(stream \<times> string) list"
  err :: "string list"
  closed_files :: "stream set"
  fresh :: nat
  user :: 'u

text \<open>
  \<^verbatim>\<open>print(s)\<close> writes to the file object that \<^verbatim>\<open>sys.stdout\<close> is bound to; on a closed
  file it raises \<^verbatim>\<open>ValueError\<close> and writes nothing. \<^verbatim>\<open>sys.stderr\<close> is never rebound or
  closed by the engine and is taken to stay open.
\<close>

definition print :: "string \<Rightarrow> 'u world \<Rightarrow> (exc + unit) \<times> 'u world" where
  "print s w =
     (if sys_stdout w \<in> closed_files w
      then (Inl (raise ValueError ''I/O operation on closed file.''), w)
      else (Inr (), w\<lparr>out := out w @ [(sys_stdout w, s)]\<rparr>))"

definition print_stderr :: "string \<Rightarrow> 'u world \<Rightarrow> 'u world" where
  "print_stderr s w = w\<lparr>err := err w @ [s]\<rparr>"

text \<open>What reached the process's original standard output.\<close>

definition console :: "'u world \<Rightarrow> string list" where
  "console w = map snd (filter (\<lambda>p. fst p = StdStream) (out w))"

section \<open>Callables and other objects given to the engine\<close>

text \<open>
  A call of a client function runs to completion and either returns or raises; what it
  does to the process state is arbitrary (it may print, rebind \<^verbatim>\<open>sys.stdout\<close>, change
  the client's state). The value it returns is discarded by the engine. A call that
  never returns is outside this model (the engine has no timeout).
\<close>

type_synonym 'u behaviour = "'u world \<Rightarrow> (exc + unit) \<times> 'u world"

text \<open>
  The parameters of a Python function: positional parameters without a default,
  positional parameters with a default (and the default's value), \<^verbatim>\<open>*args\<close>,
  \<^verbatim>\<open>**kwds\<close>, keyword-only parameters (with their default, if they have one) and the
  names that carry an annotation.
\<close>

record signature =
  required :: "string list"
  optional :: "(string \<times> pyvalue) list"
  star_args :: "string option"
  star_kwds :: "string option"
  kwonly :: "(string \<times> pyvalue option) list"
  annotations :: "string list"

text \<open>
  \<open>PyFunction\<close> is a function object (\<^verbatim>\<open>def\<close>, \<^verbatim>\<open>lambda\<close>); \<open>PyMethod\<close> is a bound
  method \<^verbatim>\<open>obj.m\<close>, given by the signature of the function \<^verbatim>\<open>m\<close>, whose first
  positional parameter receives \<^verbatim>\<open>obj\<close>; \<open>PyBuiltin\<close> is a callable that is not
  written in Python and has no signature that \<^verbatim>\<open>inspect\<close> can read (\<^verbatim>\<open>print\<close>, \<^verbatim>\<open>len\<close> and
  \<^verbatim>\<open>callable\<close> in tests.py).
\<close>

datatype 'u pyobj =
    PyNone
  | PyBool bool
  | PyInt int
  | PyStr string
  | PyFunction string signature "'u behaviour"
  | PyMethod string signature "'u behaviour"
  | PyBuiltin string "'u behaviour"

fun is_None :: "'u pyobj \<Rightarrow> bool" where
  "is_None PyNone = True"
| "is_None _ = False"

fun callable :: "'u pyobj \<Rightarrow> bool" where
  "callable (PyFunction n sg b) = True"
| "callable (PyMethod n sg b) = True"
| "callable (PyBuiltin n b) = True"
| "callable _ = False"

text \<open>Truth value testing (\<^verbatim>\<open>if x:\<close>, \<^verbatim>\<open>not x\<close>).\<close>

fun truthy :: "'u pyobj \<Rightarrow> bool" where
  "truthy PyNone = False"
| "truthy (PyBool b) = b"
| "truthy (PyInt i) = (i \<noteq> 0)"
| "truthy (PyStr s) = (s \<noteq> [])"
| "truthy (PyFunction n sg b) = True"
| "truthy (PyMethod n sg b) = True"
| "truthy (PyBuiltin n b) = True"

text \<open>
  Whether a call that passes \<open>given\<close> positional arguments and nothing else binds all
  parameters of the signature: no positional parameter without a default and no
  keyword-only parameter without a default is left over, and the arguments given find a
  parameter.
\<close>

definition binds :: "nat \<Rightarrow> signature \<Rightarrow> bool" where
  "binds given sg =
     (length (required sg) \<le> given \<and>
      \<not> list_ex (\<lambda>p. snd p = None) (kwonly sg) \<and>
      (given \<le> length (required sg) + length (optional sg) \<or> star_args sg \<noteq> None))"

text \<open>
  \<^verbatim>\<open>f()\<close>: a call with no arguments (a bound method passes its object as the first
  positional argument). Calling an object that is not callable, or a function whose
  parameters are not all bound, raises \<^verbatim>\<open>TypeError\<close> in the caller's frame.
\<close>

fun call :: "'u pyobj \<Rightarrow> 'u behaviour" where
  "call (PyFunction n sg b) w =
     (if binds 0 sg then b w
      else (Inl (raise TypeError ''missing required argument''), w))"
| "call (PyMethod n sg b) w =
     (if binds 1 sg then b w
      else (Inl (raise TypeError ''missing required argument''), w))"
| "call (PyBuiltin n b) w = b w"
| "call _ w = (Inl (raise TypeError ''object is not callable''), w)"

text \<open>
  \<^verbatim>\<open>inspect.getargspec(fn)\<close>, as the standard library of the Python 3 versions that
  have it defines it: the tuple (args, varargs, keywords, defaults) of a Python
  function, where \<^verbatim>\<open>defaults\<close> is \<^verbatim>\<open>None\<close> when no parameter has a default;
  \<^verbatim>\<open>ValueError\<close> for a function with keyword-only parameters or annotations; for a
  bound method, the tuple of its function (\<^verbatim>\<open>args\<close> keeps the parameter that receives
  the object); \<^verbatim>\<open>TypeError\<close> for anything else (built-ins, \<^verbatim>\<open>None\<close>, numbers).
\<close>

type_synonym argspec = "string list \<times> string option \<times> string option \<times> pyvalue list option"

definition argspec_of :: "signature \<Rightarrow> exc + argspec" where
  "argspec_of sg =
     (if kwonly sg \<noteq> [] \<or> annotations sg \<noteq> []
      then Inl (raise ValueError ''Function has keyword-only arguments or annotations'')
      else Inr (required sg @ map fst (optional sg), star_args sg, star_kwds sg,
                if optional sg = [] then None else Some (map snd (optional sg))))"

fun getargspec :: "'u pyobj \<Rightarrow> exc + argspec" where
  "getargspec (PyFunction n sg b) = argspec_of sg"
| "getargspec (PyMethod n sg b) = argspec_of sg"
| "getargspec _ = Inl (raise TypeError ''arg is not a Python function'')"

section \<open>\<^verbatim>\<open>takes_no_positional_arguments\<close> (swallow.py, lines 99-113)\<close>

text \<open>
  The result is \<^verbatim>\<open>True\<close>, \<^verbatim>\<open>False\<close> or \<^verbatim>\<open>None\<close> (\<open>bool option\<close>); an exception of
  \<^verbatim>\<open>getargspec\<close> other than \<^verbatim>\<open>TypeError\<close> would propagate (\<open>Inl\<close>).
\<close>

definition takes_no_positional_arguments :: "'u pyobj \<Rightarrow> exc + bool option" where
  "takes_no_positional_arguments fn =
     (case getargspec fn of
        Inl e \<Rightarrow> if isinstance e TypeError then Inr None else Inl e
      | Inr (pos, _, _, defaults) \<Rightarrow>
          (let defaults' = (case defaults of None \<Rightarrow> [] | Some d \<Rightarrow> d)
           in Inr (Some (int (length defaults') - int (length pos) = 0))))"

section \<open>\<^verbatim>\<open>stdout_to_devnull\<close> (swallow.py, lines 224-252)\<close>

text \<open>
  The context manager object: \<^verbatim>\<open>self.stdout\<close> (\<^verbatim>\<open>None\<close> until \<^verbatim>\<open>__enter__\<close> saves the
  stream) and \<^verbatim>\<open>self.hide\<close>.
\<close>

record stdout_to_devnull =
  stdout :: "stream option"
  hide :: bool

definition init :: "bool \<Rightarrow> stdout_to_devnull" where
  "init h = \<lparr>stdout = None, hide = h\<rparr>"

text \<open>\<^verbatim>\<open>open(os.devnull, 'w')\<close>: a new file object; opening the null device is taken to succeed.\<close>

definition open_devnull :: "'u world \<Rightarrow> stream \<times> 'u world" where
  "open_devnull w = (NullFile (fresh w), w\<lparr>fresh := Suc (fresh w)\<rparr>)"

definition enter :: "stdout_to_devnull \<Rightarrow> 'u world \<Rightarrow> stdout_to_devnull \<times> 'u world" where
  "enter self w =
     (if hide self then
        (let self' = self\<lparr>stdout := Some (sys_stdout w)\<rparr>;
             (f, w') = open_devnull w
         in (self', w'\<lparr>sys_stdout := f\<rparr>))
      else (self, w))"

text \<open>
  \<^verbatim>\<open>__exit__\<close> closes whatever \<^verbatim>\<open>sys.stdout\<close> is bound to at that moment and rebinds
  \<^verbatim>\<open>sys.stdout\<close> to \<^verbatim>\<open>self.stdout\<close>. It returns \<^verbatim>\<open>None\<close>, so an exception of the
  block is not swallowed. \<^verbatim>\<open>self.stdout\<close> is \<^verbatim>\<open>None\<close> only before \<^verbatim>\<open>__enter__\<close>; the
  \<^verbatim>\<open>with\<close> statement never reaches that branch, which leaves the binding as it is here.
\<close>

definition exit :: "stdout_to_devnull \<Rightarrow> 'u world \<Rightarrow> 'u world" where
  "exit self w =
     (if hide self then
        (let w' = w\<lparr>closed_files := insert (sys_stdout w) (closed_files w)\<rparr>
         in case stdout self of Some s \<Rightarrow> w'\<lparr>sys_stdout := s\<rparr> | None \<Rightarrow> w')
      else w)"

text \<open>
  \<^verbatim>\<open>with stdout_to_devnull(h): block\<close>. The block's outcome (return or exception) is
  the outcome of the statement; \<^verbatim>\<open>__exit__\<close> runs on both paths.
\<close>

definition with_stdout_to_devnull :: "bool \<Rightarrow> 'u behaviour \<Rightarrow> 'u behaviour" where
  "with_stdout_to_devnull h block w =
     (let (self, w1) = enter (init h) w;
          (r, w2) = block w1
      in (r, exit self w2))"

section \<open>\<^verbatim>\<open>singletest\<close> (swallow.py, lines 129-222)\<close>

text \<open>
  What the closure \<^verbatim>\<open>run\<close> of a decorated function captures: the function \<^verbatim>\<open>fn\<close> and
  the arguments of \<^verbatim>\<open>singletest\<close> (\<open>set_up\<close> and \<open>tear_down\<close> are its
  \<^verbatim>\<open>setup\<close> and \<^verbatim>\<open>teardown\<close>). \<^verbatim>\<open>expected\<close> is \<^verbatim>\<open>None\<close> or an exception class (a
  class is true in a truth test and has a \<^verbatim>\<open>__name__\<close>).
\<close>

record 'u testcase =
  fn :: "'u pyobj"
  expected :: "pyclass option"
  set_up :: "'u pyobj"
  tear_down :: "'u pyobj"
  run_if :: "'u pyobj"

text \<open>
  The result of \<^verbatim>\<open>run\<close>: the tuple (state, reason, exc), where state is \<^verbatim>\<open>True\<close>
  (passed), \<^verbatim>\<open>False\<close> (failed) or \<^verbatim>\<open>None\<close> (not run).
\<close>

type_synonym outcome = "bool option \<times> string option \<times> exc_info option"

datatype step = Setup | Body | Teardown

definition no_exception_reason :: "pyclass \<Rightarrow> string" where
  "no_exception_reason k = ''No exception was raised (expected '' @ cls_name k @ '').''"

text \<open>
  \<^verbatim>\<open>run(no_output)\<close>. The result is \<open>Inr\<close> of the returned tuple, or \<open>Inl e\<close> when an
  exception that is not an instance of \<^verbatim>\<open>Exception\<close> leaves \<^verbatim>\<open>run\<close>. The third component
  lists the client functions that were called, in order; it is not part of the
  program's state.
\<close>

definition run :: "'u testcase \<Rightarrow> bool \<Rightarrow> 'u world \<Rightarrow> (exc + outcome) \<times> 'u world \<times> step list" where
  "run t no_output w =
    (if \<not> truthy (run_if t) then (Inr (None, None, None), w, [])
     else
       let (r0, w0, c0) =
             (if truthy (set_up t) then
                (let (r, w') = with_stdout_to_devnull no_output (call (set_up t)) w
                 in (r, w', [Setup]))
              else (Inr (), w, []))
       in case r0 of
            Inl e \<Rightarrow>
              if isinstance e Exception then (Inr (Some False, None, Some (sys_exc_info e)), w0, c0)
              else (Inl e, w0, c0)
          | Inr _ \<Rightarrow>
             (let (r1, w1) = with_stdout_to_devnull no_output (call (fn t)) w0;
                  c1 = c0 @ [Body]
              in case
                   (case r1 of
                      Inr _ \<Rightarrow>
                        (case expected t of
                           Some k \<Rightarrow> Inr (Some False, Some (no_exception_reason k), None)
                         | None \<Rightarrow> Inr (Some True, None, None))
                    | Inl e \<Rightarrow>
                        if isinstance e Exception then
                          (if Some (exc_type e) \<noteq> expected t
                           then Inr (Some False, None, Some (sys_exc_info e))
                           else Inr (Some True, None, None))
                        else Inl e)
                 of
                   Inl e \<Rightarrow> (Inl e, w1, c1)
                 | Inr (state, reason, exc) \<Rightarrow>
                    (if truthy (tear_down t) then
                       (let (r2, w2) = with_stdout_to_devnull no_output (call (tear_down t)) w1;
                            c2 = c1 @ [Teardown]
                        in case r2 of
                             Inr _ \<Rightarrow> (Inr (state, reason, exc), w2, c2)
                           | Inl e \<Rightarrow>
                               if isinstance e Exception then
                                 (if reason = None \<and> exc = None
                                  then (Inr (Some False, reason, Some (sys_exc_info e)), w2, c2)
                                  else (Inr (state, reason, exc), w2, c2))
                               else (Inl e, w2, c2))
                     else (Inr (state, reason, exc), w1, c1))))"

text \<open>
  The loop of \<^verbatim>\<open>decorating_function\<close> over (fn, setup, teardown), lines 160-170: the
  first object that fails a check decides the \<^verbatim>\<open>ValueError\<close> that is raised. The
  messages are those of the source without the text of the object (\<^verbatim>\<open>%s\<close>).
\<close>

fun validate :: "'u pyobj list \<Rightarrow> exc option" where
  "validate [] = None"
| "validate (f # fs) =
     (if \<not> is_None f \<and> \<not> callable f then Some (raise ValueError ''isn't callable.'')
      else case takes_no_positional_arguments f of
             Inl e \<Rightarrow> Some e
           | Inr r \<Rightarrow>
               if r = Some False
               then Some (raise ValueError ''isn't callable without positional arguments.'')
               else validate fs)"

text \<open>
  \<^verbatim>\<open>singletest(expected, setup, teardown, run_if)(fn)\<close>: the decorated function with its
  \<^verbatim>\<open>run\<close> closure, or the exception raised while decorating. No client function is
  called and the process state is not touched.
\<close>

definition decorating_function ::
  "pyclass option \<Rightarrow> 'u pyobj \<Rightarrow> 'u pyobj \<Rightarrow> 'u pyobj \<Rightarrow> 'u pyobj \<Rightarrow> exc + 'u testcase" where
  "decorating_function ex su td cond f =
     (case validate [f, su, td] of
        Some e \<Rightarrow> Inl e
      | None \<Rightarrow> Inr \<lparr>fn = f, expected = ex, set_up = su, tear_down = td, run_if = cond\<rparr>)"

definition singletest ::
  "pyclass option \<Rightarrow> 'u pyobj \<Rightarrow> 'u pyobj \<Rightarrow> 'u pyobj \<Rightarrow> 'u pyobj \<Rightarrow> exc + 'u testcase" where
  "singletest ex su td cond = decorating_function ex su td cond"

text \<open>
  \<^verbatim>\<open>t.__name__\<close> of a decorated function: \<^verbatim>\<open>functools.wraps\<close> copies the name of \<^verbatim>\<open>fn\<close>
  when it has one; otherwise the inner function keeps its own name.
\<close>

fun name_of :: "'u pyobj \<Rightarrow> string" where
  "name_of (PyFunction n sg b) = n"
| "name_of (PyMethod n sg b) = n"
| "name_of (PyBuiltin n b) = n"
| "name_of _ = ''wrapper''"

section \<open>The diagnostic expander (swallow.py, lines 17-97)\<close>

datatype tok_type = ENCODING | NAME | NUMBER | STRING | OP | NEWLINE | ENDMARKER | OTHER

type_synonym token = "tok_type \<times> string"

text \<open>
  The standard library functions that the expander calls, as parameters:
  \<^verbatim>\<open>inspect.getsourcelines\<close> (the source lines of the frame's code and the number of the
  first one, or the exception it raises when the source cannot be retrieved),
  \<^verbatim>\<open>textwrap.dedent\<close>, \<^verbatim>\<open>tokenize.tokenize\<close> (the tokens it yields and, when
  tokenization fails, the exception raised after the last of them) and the text that
  \<^verbatim>\<open>traceback.print_exception\<close> writes.
\<close>

record stdlib =
  getsourcelines :: "tb_entry \<Rightarrow> exc + (string list \<times> int)"
  dedent :: "string \<Rightarrow> string"
  tokenize :: "string \<Rightarrow> token list \<times> exc option"
  format_exception :: "pyclass \<Rightarrow> exc \<Rightarrow> traceback \<Rightarrow> string"

text \<open>
  \<^verbatim>\<open>while tb.tb_next: tb = tb.tb_next\<close>. On a \<^verbatim>\<open>None\<close> traceback the attribute access
  raises \<^verbatim>\<open>AttributeError\<close>.
\<close>

fun innermost :: "traceback \<Rightarrow> exc + tb_entry" where
  "innermost [] = Inl (raise AttributeError ''NoneType object has no attribute tb_next'')"
| "innermost [tb] = Inr tb"
| "innermost (tb # tbs) = innermost tbs"

text \<open>\<^verbatim>\<open>source[i]\<close> on a Python list: a negative index counts from the end.\<close>

definition getitem :: "'a list \<Rightarrow> int \<Rightarrow> exc + 'a" where
  "getitem xs i =
     (if 0 \<le> i \<and> i < int (length xs) then Inr (xs ! nat i)
      else if i < 0 \<and> - int (length xs) \<le> i then Inr (xs ! nat (int (length xs) + i))
      else Inl (raise IndexError ''list index out of range''))"

text \<open>\<^verbatim>\<open>s.index(sub)\<close>: the lowest position of \<open>sub\<close> in \<open>s\<close>; \<open>None\<close> is \<^verbatim>\<open>ValueError\<close>.\<close>

fun str_index :: "string \<Rightarrow> string \<Rightarrow> nat option" where
  "str_index [] sub = (if sub = [] then Some 0 else None)"
| "str_index (c # cs) sub =
     (if take (length sub) (c # cs) = sub then Some 0
      else map_option Suc (str_index cs sub))"

text \<open>Lines 60-68 and 70-77: what replaces a name that is bound to \<open>v\<close>.\<close>

definition substitute :: "string \<Rightarrow> pyvalue \<Rightarrow> string" where
  "substitute tok_str v =
     (if v_callable v then tok_str
      else case v_name v of Some n \<Rightarrow> n | None \<Rightarrow> v_repr v)"

text \<open>The body of the loop over the tokens, lines 46-81, on the pair (err_line, expanded).\<close>

fun expand_tokens ::
  "(string \<rightharpoonup> pyvalue) \<Rightarrow> (string \<rightharpoonup> pyvalue) \<Rightarrow> token list \<Rightarrow> string \<Rightarrow> string \<Rightarrow> exc + string" where
  "expand_tokens local_vars global_vars [] err_line expanded = Inr expanded"
| "expand_tokens local_vars global_vars ((tok_type, tok_str) # toks) err_line expanded =
     (if tok_type \<noteq> ENCODING then
        (case str_index err_line tok_str of
           None \<Rightarrow> Inl (raise ValueError ''substring not found'')
         | Some i \<Rightarrow>
             (let expanded1 = expanded @ replicate i (CHR '' '');
                  err_line1 = drop (i + length tok_str) err_line;
                  expanded2 =
                    (if tok_type = NAME then
                       (case local_vars tok_str of
                          Some v \<Rightarrow> expanded1 @ substitute tok_str v
                        | None \<Rightarrow>
                           (case global_vars tok_str of
                              Some v \<Rightarrow> expanded1 @ substitute tok_str v
                            | None \<Rightarrow> expanded1 @ tok_str))
                     else expanded1 @ tok_str)
              in expand_tokens local_vars global_vars toks err_line1 expanded2))
      else expand_tokens local_vars global_vars toks err_line expanded)"

definition get_meaningful_expression :: "stdlib \<Rightarrow> traceback \<Rightarrow> exc + (string \<times> string)" where
  "get_meaningful_expression lib tb =
     (case innermost tb of
        Inl e \<Rightarrow> Inl e
      | Inr tb' \<Rightarrow>
         (let local_vars = f_locals tb'; global_vars = f_globals tb';
              err_lineno = tb_lineno tb'
          in case getsourcelines lib tb' of
               Inl e \<Rightarrow> Inl e
             | Inr (source, lineno) \<Rightarrow>
                (case getitem source (err_lineno - lineno) of
                   Inl e \<Rightarrow> Inl e
                 | Inr line \<Rightarrow>
                    (let err_line = dedent lib line;
                         backup = err_line;
                         (toks, failure) = tokenize lib err_line
                     in case expand_tokens local_vars global_vars toks err_line [] of
                          Inl e \<Rightarrow> Inl e
                        | Inr expanded \<Rightarrow>
                           (case failure of
                              Some e \<Rightarrow> Inl e
                            | None \<Rightarrow> Inr (backup, expanded))))))"

text \<open>
  \<^verbatim>\<open>print_exception(type, value, tb, expand_errors)\<close>: the traceback is written to
  \<^verbatim>\<open>sys.stderr\<close> first, then the expander runs.
\<close>

definition print_exception ::
  "stdlib \<Rightarrow> pyclass \<Rightarrow> exc \<Rightarrow> traceback \<Rightarrow> bool \<Rightarrow> 'u world \<Rightarrow> (exc + unit) \<times> 'u world" where
  "print_exception lib ty val tb expand_errors w =
     (case tb of
        [] \<Rightarrow> (Inl (raise AttributeError ''NoneType object has no attribute tb_next''), w)
      | _ # tb' \<Rightarrow>
         (let w1 = print_stderr (format_exception lib ty val tb') w
          in if expand_errors then
               (case get_meaningful_expression lib tb' of
                  Inl e \<Rightarrow> (Inl e, w1)
                | Inr (orig, e) \<Rightarrow>
                    (Inr (), if orig \<noteq> e then print_stderr (replicate 4 (CHR '' '') @ e) w1 else w1))
             else (Inr (), w1)))"

section \<open>The class \<^verbatim>\<open>Swallow\<close> (swallow.py, lines 255-361)\<close>

record 'u Swallow =
  tests :: "'u testcase list"
  self_setup :: "'u pyobj"
  self_teardown :: "'u pyobj"

definition Swallow_init :: "'u pyobj \<Rightarrow> 'u pyobj \<Rightarrow> 'u Swallow" where
  "Swallow_init su td = \<lparr>tests = [], self_setup = su, self_teardown = td\<rparr>"

text \<open>
  The inner function \<^verbatim>\<open>wrapper(fn)\<close> of \<^verbatim>\<open>__call__\<close> and of \<^verbatim>\<open>expect\<close>, with the
  \<^verbatim>\<open>expected\<close> and \<^verbatim>\<open>run_if\<close> it has captured: it decorates, appends to
  \<^verbatim>\<open>self.tests\<close> and returns the decorated function.
\<close>

definition wrapper ::
  "pyclass option \<Rightarrow> 'u pyobj \<Rightarrow> 'u Swallow \<Rightarrow> 'u pyobj \<Rightarrow> (exc + 'u testcase) \<times> 'u Swallow" where
  "wrapper ex cond self f =
     (case singletest ex (self_setup self) (self_teardown self) cond f of
        Inl e \<Rightarrow> (Inl e, self)
      | Inr t \<Rightarrow> (Inr t, self\<lparr>tests := tests self @ [t]\<rparr>))"

text \<open>
  \<^verbatim>\<open>__call__(self, run_if)\<close> returns either a decorated function, already registered,
  or the decorator \<^verbatim>\<open>wrapper\<close> that has captured \<^verbatim>\<open>run_if\<close>.
\<close>

datatype 'u call_result = Registered "'u testcase" | Decorator "'u pyobj"

definition Swallow_call :: "'u Swallow \<Rightarrow> 'u pyobj \<Rightarrow> (exc + 'u call_result) \<times> 'u Swallow" where
  "Swallow_call self cond =
     (if callable cond then
        (case singletest None (self_setup self) (self_teardown self) (PyBool True) cond of
           Inl e \<Rightarrow> (Inl e, self)
         | Inr t \<Rightarrow> (Inr (Registered t), self\<lparr>tests := tests self @ [t]\<rparr>))
      else (Inr (Decorator cond), self))"

text \<open>\<^verbatim>\<open>expect(self, expected, run_if)(fn)\<close>.\<close>

definition expect ::
  "'u Swallow \<Rightarrow> pyclass \<Rightarrow> 'u pyobj \<Rightarrow> 'u pyobj \<Rightarrow> (exc + 'u testcase) \<times> 'u Swallow" where
  "expect self ex cond f = wrapper (Some ex) cond self f"


text \<open>Decimal text of a number, for the \<^verbatim>\<open>%d\<close> of the summary line.\<close>

fun str_nat :: "nat \<Rightarrow> string" where
  "str_nat n =
     (if n < 10 then [''0123456789'' ! n]
      else str_nat (n div 10) @ [''0123456789'' ! (n mod 10)])"

definition str_int :: "int \<Rightarrow> string" where
  "str_int i = (if i < 0 then CHR ''-'' # str_nat (nat (- i)) else str_nat (nat i))"

type_synonym counts = "int \<times> int \<times> int"

text \<open>
  The body of the loop of \<^verbatim>\<open>Swallow.run\<close> after the call of \<^verbatim>\<open>t.run\<close>, lines 342-357,
  on the counters (passed, not_run, failed) and on the locals (type, value, tb). These
  locals keep the value of an earlier iteration and are unbound (\<open>None\<close>) before the
  first assignment; \<open>traced\<close> is the \<^verbatim>\<open>else\<close> branch of \<^verbatim>\<open>if reason:\<close>. The result is
  the exception raised, if any, with the new counters, locals and state.
\<close>

definition report ::
  "stdlib \<Rightarrow> bool \<Rightarrow> outcome \<Rightarrow> counts \<Rightarrow> exc_info option \<Rightarrow> 'u world \<Rightarrow>
     (exc + unit) \<times> counts \<times> exc_info option \<times> 'u world" where
  "report lib expand_errors result c tvt w =
     (case (result, c) of ((state, reason, exc), (passed, not_run, failed)) \<Rightarrow>
        (let tvt' = (case exc of Some i \<Rightarrow> Some i | None \<Rightarrow> tvt)
         in if state = Some True then
              (let (r, w') = print ''PASS'' w
               in (r, (passed + 1, not_run, failed), tvt', w'))
            else if state = None then
              (let (r, w') = print ''NOT RUN'' w
               in (r, (passed, not_run + 1, failed), tvt', w'))
            else
              (let c' = (passed, not_run, failed + 1);
                   (r, w') = print ''FAIL'' w
               in case r of
                    Inl e \<Rightarrow> (Inl e, c', tvt', w')
                  | Inr _ \<Rightarrow>
                     (let traced =
                            (case tvt' of
                               None \<Rightarrow>
                                 (Inl (raise (PyClass ''UnboundLocalError''
                                                [PyClass ''NameError'' [Exception]])
                                         ''local variable referenced before assignment''),
                                  c', tvt', w')
                             | Some (ty, val, tb) \<Rightarrow>
                                 (let (r', w'') = print_exception lib ty val tb expand_errors w'
                                  in (r', c', tvt', w'')))
                      in case reason of
                           Some msg \<Rightarrow>
                             if msg \<noteq> [] then (Inr (), c', tvt', print_stderr msg w')
                             else traced
                         | None \<Rightarrow> traced))))"

text \<open>
  The loop of \<^verbatim>\<open>Swallow.run\<close>, lines 338-357. The last component of the result lists the
  outcomes that the calls of \<^verbatim>\<open>t.run\<close> returned, in order; it is not part of the
  program's state.
\<close>

fun run_loop ::
  "stdlib \<Rightarrow> bool \<Rightarrow> bool \<Rightarrow> 'u testcase list \<Rightarrow> counts \<Rightarrow> exc_info option \<Rightarrow> 'u world \<Rightarrow>
     (exc + counts) \<times> 'u world \<times> outcome list" where
  "run_loop lib no_output expand_errors [] c tvt w = (Inr c, w, [])"
| "run_loop lib no_output expand_errors (t # ts) c tvt w =
     (case print (''Testing '' @ name_of (fn t) @ '': '') w of
        (Inl e, w1) \<Rightarrow> (Inl e, w1, [])
      | (Inr _, w1) \<Rightarrow>
         (case run t no_output w1 of
            (Inl e, w2, _) \<Rightarrow> (Inl e, w2, [])
          | (Inr result, w2, _) \<Rightarrow>
             (case report lib expand_errors result c tvt w2 of
                (Inl e, c', tvt', w3) \<Rightarrow> (Inl e, w3, [result])
              | (Inr _, c', tvt', w3) \<Rightarrow>
                  (let (res, w4, os) = run_loop lib no_output expand_errors ts c' tvt' w3
                   in (res, w4, result # os)))))"

text \<open>
  The method \<^verbatim>\<open>run\<close> before decoration, lines 334-361, and the decorator \<^verbatim>\<open>timer\<close>,
  lines 115-127. The measured duration is not modelled: \<open>elapsed\<close> stands for its text.
\<close>

definition summary :: "nat \<Rightarrow> counts \<Rightarrow> string" where
  "summary n c =
     (case c of (passed, not_run, failed) \<Rightarrow>
        str_int (int n) @ '' tests, '' @ str_int passed @ '' PASS, '' @ str_int not_run @
        '' NOT RUN, '' @ str_int failed @ '' FAIL'')"

definition run_method ::
  "stdlib \<Rightarrow> 'u Swallow \<Rightarrow> bool \<Rightarrow> bool \<Rightarrow> 'u world \<Rightarrow> (exc + counts) \<times> 'u world \<times> outcome list" where
  "run_method lib self no_output expand_errors w =
     (case run_loop lib no_output expand_errors (tests self) (0, 0, 0) None w of
        (Inl e, w', os) \<Rightarrow> (Inl e, w', os)
      | (Inr c, w', os) \<Rightarrow>
          (case print [] w' of
             (Inl e, w1) \<Rightarrow> (Inl e, w1, os)
           | (Inr _, w1) \<Rightarrow>
               (case print (summary (length (tests self)) c) w1 of
                  (Inl e, w2) \<Rightarrow> (Inl e, w2, os)
                | (Inr _, w2) \<Rightarrow> (Inr c, w2, os))))"

definition timer ::
  "string \<Rightarrow> ('u world \<Rightarrow> (exc + 'a) \<times> 'u world \<times> 'b) \<Rightarrow> 'u world \<Rightarrow> (exc + 'a) \<times> 'u world \<times> 'b" where
  "timer elapsed f w =
     (case f w of
        (Inl e, w', g) \<Rightarrow> (Inl e, w', g)
      | (Inr r, w', g) \<Rightarrow>
          (case print (''Executed in '' @ elapsed @ '' seconds.'') w' of
             (Inl e, w1) \<Rightarrow> (Inl e, w1, g)
           | (Inr _, w1) \<Rightarrow> (Inr r, w1, g)))"

definition Swallow_run ::
  "stdlib \<Rightarrow> string \<Rightarrow> 'u Swallow \<Rightarrow> bool \<Rightarrow> bool \<Rightarrow> 'u world \<Rightarrow> (exc + counts) \<times> 'u world \<times> outcome list" where
  "Swallow_run lib elapsed self no_output expand_errors =
     timer elapsed (run_method lib self no_output expand_errors)"

text \<open>
  The client functions that \<^verbatim>\<open>run\<close> may call for a test case: none when the run
  condition is false; otherwise the setup and the teardown when they are present (true
  in a truth test), and the body.
\<close>

definition called :: "'u testcase \<Rightarrow> 'u pyobj list" where
  "called t =
     (if truthy (run_if t) then
        (if truthy (set_up t) then [set_up t] else []) @ [fn t] @
        (if truthy (tear_down t) then [tear_down t] else [])
      else [])"

text \<open>
  \<^verbatim>\<open>sys.stdout\<close> is bound to a file that is open, and whose number, if it is a file on
  the null device, has been given out already.
\<close>

definition stdout_open :: "'u world \<Rightarrow> bool" where
  "stdout_open w =
     (sys_stdout w \<notin> closed_files w \<and>
      (case sys_stdout w of NullFile k \<Rightarrow> k < fresh w | _ \<Rightarrow> True))"

section \<open>The Callable Validator as the specification words it\<close>

text \<open>
  Section 4.2 of the specification, \<^verbatim>\<open>isZeroArgInvocable(f) -> {True, False, Unknown}\<close>:
  False if \<open>f\<close> statically requires one or more arguments without defaults, True if
  \<open>f\<close> can be invoked with no arguments (no parameters, or all parameters defaulted or
  variadic), Unknown (\<open>None\<close>) if the arity cannot be determined. This definition follows
  the specification; \<open>takes_no_positional_arguments\<close> above follows the source.
\<close>

definition isZeroArgInvocable :: "'u pyobj \<Rightarrow> bool option" where
  "isZeroArgInvocable f =
     (case f of
        PyFunction n sg b \<Rightarrow> Some (binds 0 sg)
      | PyMethod n sg b \<Rightarrow> Some (binds 1 sg)
      | _ \<Rightarrow> None)"

text \<open>
  The objects on which \<^verbatim>\<open>inspect.getargspec\<close> neither counts a bound parameter nor
  refuses to answer: everything but bound methods and functions with keyword-only
  parameters or annotations.
\<close>

fun plain :: "'u pyobj \<Rightarrow> bool" where
  "plain (PyFunction n sg b) = (kwonly sg = [] \<and> annotations sg = [])"
| "plain (PyMethod n sg b) = False"
| "plain _ = True"

section \<open>Concrete client code, for evaluating the engine\<close>

definition world0 :: "unit world" where
  "world0 = \<lparr>sys_stdout = StdStream, out = [], err = [], closed_files = {}, fresh = 0, user = ()\<rparr>"

definition no_params :: signature where
  "no_params = \<lparr>required = [], optional = [], star_args = None, star_kwds = None,
                 kwonly = [], annotations = []\<rparr>"

text \<open>
  \<^verbatim>\<open>def name(): pass\<close>, \<^verbatim>\<open>def name(): raise c()\<close>, \<^verbatim>\<open>def name(): print(s)\<close>. The
  exception of \<open>raising\<close> carries no traceback entry (it is used where the traceback
  is not read: without expansion, or with an exception that nothing catches);
  \<open>dividing\<close> below raises with the traceback it is given.
\<close>

definition passing :: "string \<Rightarrow> 'u pyobj" where
  "passing name = PyFunction name no_params (\<lambda>w. (Inr (), w))"

definition raising :: "string \<Rightarrow> pyclass \<Rightarrow> 'u pyobj" where
  "raising name c = PyFunction name no_params (\<lambda>w. (Inl (raise c []), w))"

definition printing :: "string \<Rightarrow> string \<Rightarrow> 'u pyobj" where
  "printing name s = PyFunction name no_params (print s)"

text \<open>\<^verbatim>\<open>@singletest(expected, setup, teardown) def f(): ...\<close> with \<^verbatim>\<open>run_if\<close> left at \<^verbatim>\<open>True\<close>.\<close>

definition test :: "pyclass option \<Rightarrow> 'u pyobj \<Rightarrow> 'u pyobj \<Rightarrow> 'u pyobj \<Rightarrow> 'u testcase" where
  "test ex su td f = \<lparr>fn = f, expected = ex, set_up = su, tear_down = td, run_if = PyBool True\<rparr>"

text \<open>\<^verbatim>\<open>sys.stdout = f\<close>, as a client block.\<close>

definition rebinding :: "stream \<Rightarrow> 'u behaviour" where
  "rebinding f w = (Inr (), w\<lparr>sys_stdout := f\<rparr>)"

text \<open>The parameters of \<^verbatim>\<open>lambda x: x\<close>.\<close>

definition one_param :: signature where
  "one_param = \<lparr>required = [''x''], optional = [], star_args = None, star_kwds = None,
                 kwonly = [], annotations = []\<rparr>"

text \<open>The parameters of \<^verbatim>\<open>def m(self): pass\<close> and of \<^verbatim>\<open>def f() -> None: pass\<close>.\<close>

definition self_only :: signature where
  "self_only = \<lparr>required = [''self''], optional = [], star_args = None, star_kwds = None,
                 kwonly = [], annotations = []\<rparr>"

definition returns_None :: signature where
  "returns_None = \<lparr>required = [], optional = [], star_args = None, star_kwds = None,
                    kwonly = [], annotations = [''return'']\<rparr>"

text \<open>The suite of the test \<^verbatim>\<open>swallow_class\<close> in tests.py.\<close>

definition tests_py :: "unit testcase list" where
  "tests_py =
     [ (test None PyNone PyNone (passing ''a''))\<lparr>run_if := PyBool (3 > (2::nat))\<rparr>,
       (test None PyNone PyNone (passing ''b''))\<lparr>run_if := PyBool (3 < (2::nat))\<rparr>,
       test None PyNone PyNone (passing ''c''),
       test (Some ZeroDivisionError) PyNone PyNone (raising ''d'' ZeroDivisionError),
       test None PyNone PyNone (raising ''e'' ZeroDivisionError),
       test (Some TypeError) PyNone PyNone (raising ''f'' ZeroDivisionError),
       test (Some TypeError) PyNone PyNone (passing ''g'') ]"

text \<open>
  Stack frames and a standard library to evaluate the expander on. The function
  \<^verbatim>\<open>e\<close> is \<^verbatim>\<open>def e(): x = 0; 1 // x\<close> (three lines, the first one being line 10 of its
  file); \<open>frame_exec\<close> belongs to code whose source \<^verbatim>\<open>inspect\<close> cannot find (code
  compiled from a string); \<open>frame_open\<close> is on a line that ends inside a parenthesis, on
  which \<^verbatim>\<open>tokenize\<close> fails after the last token.
\<close>

definition frame_e :: tb_entry where
  "frame_e = \<lparr>tb_lineno = 12,
               f_locals = [''x'' \<mapsto> \<lparr>v_callable = False, v_name = None, v_repr = ''0''\<rparr>],
               f_globals = Map.empty, f_code = 1\<rparr>"

definition frame_exec :: tb_entry where
  "frame_exec = \<lparr>tb_lineno = 1, f_locals = Map.empty, f_globals = Map.empty, f_code = 2\<rparr>"


definition lib0 :: stdlib where
  "lib0 =
     \<lparr>getsourcelines =
        (\<lambda>tb. if f_code tb = 1 then Inr ([''def e():'', ''    x = 0'', ''    1 // x''], 10)
              else if f_code tb = 3 then Inr ([''y = (1 //''], 1)
              else Inl (raise OSError ''could not get source code'')),
      dedent = dropWhile (\<lambda>c. c = CHR '' ''),
      tokenize =
        (\<lambda>s. if s = ''1 // x'' then
                ([(ENCODING, ''utf-8''), (NUMBER, ''1''), (OP, ''//''), (NAME, ''x''),
                  (NEWLINE, []), (ENDMARKER, [])], None)
              else
                ([(ENCODING, ''utf-8''), (NAME, ''y''), (OP, ''=''), (OP, ''(''), (NUMBER, ''1''),
                  (OP, ''//'')],
                 Some (raise (PyClass ''TokenError'' [Exception]) ''EOF in multi-line statement''))),
      format_exception = (\<lambda>ty val tb. ''Traceback (most recent call last): '' @ cls_name ty)\<rparr>"

definition dividing :: "string \<Rightarrow> traceback \<Rightarrow> 'u pyobj" where
  "dividing name tb =
     PyFunction name no_params
       (\<lambda>w. (Inl \<lparr>exc_type = ZeroDivisionError, exc_msg = ''integer division or modulo by zero'',
                  exc_tb = tb\<rparr>, w))"

definition tests_py_suite :: "unit Swallow" where
  "tests_py_suite = \<lparr>tests = tests_py, self_setup = PyNone, self_teardown = PyNone\<rparr>"

text \<open>
  A suite of four cases: one that passes, one whose run condition is false, one with a
  setup and a teardown whose body divides by zero in \<^verbatim>\<open>e\<close>, and one that expects the
  \<^verbatim>\<open>ZeroDivisionError\<close> that its body raises.
\<close>

definition expanding_suite :: "unit Swallow" where
  "expanding_suite =
     \<lparr>tests =
        [ test None PyNone PyNone (passing ''a''),
          (test None PyNone PyNone (passing ''b''))\<lparr>run_if := PyBool False\<rparr>,
          test None (passing ''before'') (passing ''after'') (dividing ''c'' [frame_e]),
          test (Some ZeroDivisionError) PyNone PyNone (dividing ''d'' [frame_e]) ],
      self_setup = PyNone, self_teardown = PyNone\<rparr>"

section \<open>Evaluation lemmas\<close>

lemma issubclass_Exception [simp]:
  "issubclass Exception Exception"
  "issubclass TypeError Exception"
  "issubclass ValueError Exception"
  "issubclass AttributeError Exception"
  "issubclass IndexError Exception"
  "issubclass OSError Exception"
  "issubclass ZeroDivisionError Exception"
  "\<not> issubclass KeyboardInterrupt Exception"
  "\<not> issubclass SystemExit Exception"
  by (simp_all add: Exception_def TypeError_def ValueError_def AttributeError_def IndexError_def
        LookupError_def OSError_def ZeroDivisionError_def ArithmeticError_def
        KeyboardInterrupt_def SystemExit_def BaseException_def)

lemma issubclass_refl [simp]: "issubclass c c"
  by (cases c) simp

lemmas class_defs =
  BaseException_def Exception_def KeyboardInterrupt_def SystemExit_def TypeError_def
  ValueError_def AttributeError_def LookupError_def IndexError_def OSError_def
  ArithmeticError_def ZeroDivisionError_def

lemmas scope_defs =
  with_stdout_to_devnull_def enter_def exit_def init_def open_devnull_def

lemmas client_defs =
  test_def passing_def raising_def printing_def no_params_def world0_def binds_def

section \<open>The outcome of \<^verbatim>\<open>run\<close>\<close>

text \<open>
  Claim C6. Whenever \<^verbatim>\<open>run\<close> returns a tuple (state, reason, exc): if state is
  \<^verbatim>\<open>False\<close> (Failed) then exactly one of reason and exc is set, never both and never
  neither; if state is \<^verbatim>\<open>None\<close> (Skipped) then both are \<^verbatim>\<open>None\<close>. This holds for every
  test case, every value of \<^verbatim>\<open>no_output\<close> and every starting state.
\<close>

theorem run_outcome_invariant:
  "fst (run t no_output w) = Inr (state, reason, exc) \<Longrightarrow>
     (state = Some False \<longrightarrow> (reason = None) \<noteq> (exc = None)) \<and>
     (state = None \<longrightarrow> reason = None \<and> exc = None)"
  by (auto simp: run_def Let_def sys_exc_info_def
           split: if_splits prod.splits sum.splits option.splits)

theorem run_outcome_invariant_witness:
  "fst (run (test (Some TypeError) PyNone PyNone (passing ''f'')) True world0)
     = Inr (Some False, Some (no_exception_reason TypeError), None) \<and>
   (Some (no_exception_reason TypeError) = None) \<noteq> ((None :: exc_info option) = None) \<and>
   fst (run ((test None PyNone PyNone (raising ''g'' ZeroDivisionError))\<lparr>run_if := PyBool False\<rparr>)
          True world0)
     = Inr (None, None, None)"
  using run_outcome_invariant
          [of "test (Some TypeError) PyNone PyNone (passing ''f'')" True world0
              "Some False" "Some (no_exception_reason TypeError)" None]
  by (simp add: run_def scope_defs client_defs)

lemma setup_step_ok:
  assumes "if truthy (set_up t)
           then with_stdout_to_devnull no_output (call (set_up t)) w = (Inr (), w0)
           else w0 = w"
  shows "(if truthy (set_up t) then
            (let (r, w') = with_stdout_to_devnull no_output (call (set_up t)) w
             in (r, w', [Setup]))
          else (Inr (), w, []))
         = (Inr (), w0, if truthy (set_up t) then [Setup] else [])"
  using assms by (simp split: if_splits)

text \<open>
  Claim C3, with the kind of the exception made explicit. Let the run condition be true
  and let the setup, called inside the capture scope, raise \<open>e\<close> and leave the state
  \<open>w'\<close>. Then only the setup has been called (neither the body nor the teardown), the
  final state is \<open>w'\<close>, and: if \<open>e\<close> is an instance of \<^verbatim>\<open>Exception\<close>, \<^verbatim>\<open>run\<close> returns
  Failed with failureInfo \<^verbatim>\<open>sys.exc_info()\<close> of \<open>e\<close> and reason absent; otherwise
  (\<^verbatim>\<open>KeyboardInterrupt\<close>, \<^verbatim>\<open>SystemExit\<close>, ...) \<open>e\<close> is not caught by
  \<^verbatim>\<open>except Exception\<close> and leaves \<^verbatim>\<open>run\<close>.
\<close>

theorem setup_failure:
  assumes "truthy (run_if t)" and "truthy (set_up t)"
      and "with_stdout_to_devnull no_output (call (set_up t)) w = (Inl e, w')"
  shows "run t no_output w =
           (if isinstance e Exception then Inr (Some False, None, Some (sys_exc_info e)) else Inl e,
            w', [Setup])"
  using assms by (simp add: run_def)

text \<open>The test \<^verbatim>\<open>c\<close> of tests.py: \<^verbatim>\<open>setup=lambda: int('')\<close> raises \<^verbatim>\<open>ValueError\<close>.\<close>

theorem setup_failure_witness:
  "truthy (run_if (test (Some ValueError) (raising ''lambda'' ValueError) PyNone (passing ''c'')
                     :: unit testcase)) \<and>
   truthy (set_up (test (Some ValueError) (raising ''lambda'' ValueError) PyNone (passing ''c'')
                     :: unit testcase)) \<and>
   with_stdout_to_devnull True (call (raising ''lambda'' ValueError)) world0
     = (Inl (raise ValueError []), world0\<lparr>closed_files := {NullFile 0}, fresh := 1\<rparr>) \<and>
   run (test (Some ValueError) (raising ''lambda'' ValueError) PyNone (passing ''c'')) True world0
     = (Inr (Some False, None, Some (sys_exc_info (raise ValueError []))),
        world0\<lparr>closed_files := {NullFile 0}, fresh := 1\<rparr>, [Setup])"
  using setup_failure
          [of "test (Some ValueError) (raising ''lambda'' ValueError) PyNone (passing ''c'')"
              True world0 "raise ValueError []" "world0\<lparr>closed_files := {NullFile 0}, fresh := 1\<rparr>"]
  by (simp add: scope_defs client_defs isinstance_def raise_def)

text \<open>
  Without the restriction to \<^verbatim>\<open>Exception\<close>, C3 fails: a setup that raises \<^verbatim>\<open>KeyboardInterrupt\<close> does not make
  \<^verbatim>\<open>run\<close> return Failed; the exception leaves \<^verbatim>\<open>run\<close>.
\<close>

theorem setup_failure_counterexample:
  "truthy (run_if (test None (raising ''setup'' KeyboardInterrupt) PyNone (passing ''f'')
                     :: unit testcase)) \<and>
   fst (with_stdout_to_devnull True (call (raising ''setup'' KeyboardInterrupt)) world0)
     = Inl (raise KeyboardInterrupt []) \<and>
   fst (run (test None (raising ''setup'' KeyboardInterrupt) PyNone (passing ''f'')) True world0)
     = Inl (raise KeyboardInterrupt []) \<and>
   fst (run (test None (raising ''setup'' KeyboardInterrupt) PyNone (passing ''f'')) True world0)
     \<noteq> Inr (Some False, None, Some (sys_exc_info (raise KeyboardInterrupt [])))"
  by (simp add: run_def scope_defs client_defs isinstance_def raise_def)

text \<open>
  Claim C1, with the kind of the exceptions made explicit. Let the test case have
  \<^verbatim>\<open>expected\<close> = \<open>k\<close> and a true run condition, let its setup (if any) succeed and leave
  the state \<open>w0\<close>, let \<open>rb\<close> be the outcome of the body inside the capture scope and
  \<open>rt\<close> the outcome of the teardown (success when there is none). Then:
  \<^item> if the body raises an instance of \<^verbatim>\<open>Exception\<close> whose class is exactly \<open>k\<close> and the
    teardown does not fail, \<^verbatim>\<open>run\<close> returns Passed;
  \<^item> if the body raises an instance of \<^verbatim>\<open>Exception\<close> of any other class, \<^verbatim>\<open>run\<close>
    returns Failed with failureInfo set to that error, whether the teardown fails or not;
  \<^item> if the body raises nothing, \<^verbatim>\<open>run\<close> returns Failed with the reason
    "No exception was raised (expected <name of k>)." and no failureInfo;
  \<^item> an exception of the body that is not an instance of \<^verbatim>\<open>Exception\<close> leaves \<^verbatim>\<open>run\<close>,
    even when its class is \<open>k\<close>.
  The second and third item suppose that the teardown raises nothing outside
  \<^verbatim>\<open>Exception\<close>.
\<close>

theorem expected_failure_kind:
  assumes "truthy (run_if t)" and "expected t = Some k"
    and su: "if truthy (set_up t)
             then with_stdout_to_devnull no_output (call (set_up t)) w = (Inr (), w0)
             else w0 = w"
    and body: "with_stdout_to_devnull no_output (call (fn t)) w0 = (rb, w1)"
    and td: "rt = (if truthy (tear_down t)
                   then fst (with_stdout_to_devnull no_output (call (tear_down t)) w1)
                   else Inr ())"
  shows "(\<forall>e. rb = Inl e \<and> isinstance e Exception \<and> exc_type e = k \<and> rt = Inr ()
            \<longrightarrow> fst (run t no_output w) = Inr (Some True, None, None)) \<and>
         (\<forall>e. rb = Inl e \<and> isinstance e Exception \<and> exc_type e \<noteq> k \<and>
               (\<forall>e'. rt = Inl e' \<longrightarrow> isinstance e' Exception)
            \<longrightarrow> fst (run t no_output w) = Inr (Some False, None, Some (sys_exc_info e))) \<and>
         (rb = Inr () \<and> (\<forall>e'. rt = Inl e' \<longrightarrow> isinstance e' Exception)
            \<longrightarrow> fst (run t no_output w)
                  = Inr (Some False,
                         Some (''No exception was raised (expected '' @ cls_name k @ '').''), None)) \<and>
         (\<forall>e. rb = Inl e \<and> \<not> isinstance e Exception \<longrightarrow> fst (run t no_output w) = Inl e)"
proof -
  obtain r2 w2 where td2: "with_stdout_to_devnull no_output (call (tear_down t)) w1 = (r2, w2)"
    by (cases "with_stdout_to_devnull no_output (call (tear_down t)) w1")
  note s = setup_step_ok [OF su]
  show ?thesis
    unfolding run_def s
    using assms(1,2) body td td2
    by (cases r2) (auto simp: no_exception_reason_def)
qed

text \<open>
  The tests \<^verbatim>\<open>b\<close> and \<^verbatim>\<open>f\<close> of tests.py, a test that expects \<^verbatim>\<open>TypeError\<close> and divides
  by zero (with a setup that succeeds and a teardown that fails), a test that expects
  \<^verbatim>\<open>KeyboardInterrupt\<close> and raises it, and a test that expects \<^verbatim>\<open>ArithmeticError\<close> and
  raises an instance of its subclass \<^verbatim>\<open>ZeroDivisionError\<close>.
\<close>

theorem expected_failure_kind_witness:
  "fst (run (test (Some ZeroDivisionError) PyNone PyNone (raising ''b'' ZeroDivisionError))
          True world0)
     = Inr (Some True, None, None) \<and>
   fst (run (test (Some TypeError) (passing ''s'') (raising ''td'' ValueError)
               (raising ''f'' ZeroDivisionError)) True world0)
     = Inr (Some False, None, Some (sys_exc_info (raise ZeroDivisionError []))) \<and>
   fst (run (test (Some TypeError) PyNone PyNone (passing ''g'')) True world0)
     = Inr (Some False, Some ''No exception was raised (expected TypeError).'', None) \<and>
   fst (run (test (Some KeyboardInterrupt) PyNone PyNone (raising ''h'' KeyboardInterrupt))
          True world0)
     = Inl (raise KeyboardInterrupt []) \<and>
   issubclass ZeroDivisionError ArithmeticError \<and>
   fst (run (test (Some ArithmeticError) PyNone PyNone (raising ''k'' ZeroDivisionError))
          True world0)
     = Inr (Some False, None, Some (sys_exc_info (raise ZeroDivisionError [])))"
  using expected_failure_kind
          [of "test (Some ZeroDivisionError) PyNone PyNone (raising ''b'' ZeroDivisionError)"
              ZeroDivisionError True world0 world0
              "Inl (raise ZeroDivisionError [])"
              "world0\<lparr>closed_files := {NullFile 0}, fresh := 1\<rparr>"
              "Inr ()"]
        expected_failure_kind
          [of "test (Some TypeError) (passing ''s'') (raising ''td'' ValueError)
                 (raising ''f'' ZeroDivisionError)"
              TypeError True world0 "world0\<lparr>closed_files := {NullFile 0}, fresh := 1\<rparr>"
              "Inl (raise ZeroDivisionError [])"
              "world0\<lparr>closed_files := {NullFile 0, NullFile 1}, fresh := 2\<rparr>"
              "Inl (raise ValueError [])"]
        expected_failure_kind
          [of "test (Some TypeError) PyNone PyNone (passing ''g'')"
              TypeError True world0 world0
              "Inr ()" "world0\<lparr>closed_files := {NullFile 0}, fresh := 1\<rparr>"
              "Inr ()"]
        expected_failure_kind
          [of "test (Some KeyboardInterrupt) PyNone PyNone (raising ''h'' KeyboardInterrupt)"
              KeyboardInterrupt True world0 world0
              "Inl (raise KeyboardInterrupt [])"
              "world0\<lparr>closed_files := {NullFile 0}, fresh := 1\<rparr>"
              "Inr ()"]
        expected_failure_kind
          [of "test (Some ArithmeticError) PyNone PyNone (raising ''k'' ZeroDivisionError)"
              ArithmeticError True world0 world0
              "Inl (raise ZeroDivisionError [])"
              "world0\<lparr>closed_files := {NullFile 0}, fresh := 1\<rparr>"
              "Inr ()"]
  by (simp add: scope_defs client_defs isinstance_def raise_def insert_commute
       TypeError_def ZeroDivisionError_def ArithmeticError_def Exception_def BaseException_def
       KeyboardInterrupt_def ValueError_def)

text \<open>
  Without the restriction to \<^verbatim>\<open>Exception\<close>, C1 fails: with \<^verbatim>\<open>expected\<close> = \<^verbatim>\<open>ZeroDivisionError\<close> and a body that
  raises \<^verbatim>\<open>SystemExit\<close> (an error of another kind), \<^verbatim>\<open>run\<close> does not return Failed; the
  exception leaves \<^verbatim>\<open>run\<close>.
\<close>

theorem expected_failure_kind_counterexample:
  "expected (test (Some ZeroDivisionError) PyNone PyNone (raising ''f'' SystemExit) :: unit testcase)
     = Some ZeroDivisionError \<and>
   fst (with_stdout_to_devnull True (call (raising ''f'' SystemExit)) world0)
     = Inl (raise SystemExit []) \<and>
   exc_type (raise SystemExit []) \<noteq> ZeroDivisionError \<and>
   fst (run (test (Some ZeroDivisionError) PyNone PyNone (raising ''f'' SystemExit)) True world0)
     = Inl (raise SystemExit []) \<and>
   fst (run (test (Some ZeroDivisionError) PyNone PyNone (raising ''f'' SystemExit)) True world0)
     \<noteq> Inr (Some False, None, Some (sys_exc_info (raise SystemExit [])))"
  by (simp add: run_def scope_defs client_defs isinstance_def raise_def SystemExit_def
       ZeroDivisionError_def ArithmeticError_def Exception_def BaseException_def)

text \<open>
  Claim C2, with the kind of the exception made explicit. Let the run condition be true,
  let the setup (if any) succeed, and let (state, reason, exc) be what the setup and body
  steps have accumulated, that is, what \<^verbatim>\<open>run\<close> returns for the same test case without
  its teardown, leaving the state \<open>w1\<close>. Let the teardown, called in \<open>w1\<close> inside the
  capture scope, raise \<open>e\<close>. If \<open>e\<close> is an instance of \<^verbatim>\<open>Exception\<close>: when no failure
  was recorded (reason and exc both absent) \<^verbatim>\<open>run\<close> returns Failed with failureInfo
  \<^verbatim>\<open>sys.exc_info()\<close> of \<open>e\<close>; when a failure was recorded, \<open>e\<close> is dropped and \<^verbatim>\<open>run\<close>
  returns exactly the earlier (state, reason, exc). If \<open>e\<close> is not an instance of
  \<^verbatim>\<open>Exception\<close>, it leaves \<^verbatim>\<open>run\<close>.
\<close>

theorem teardown_failure:
  assumes "truthy (run_if t)" and "truthy (tear_down t)"
    and su: "\<not> truthy (set_up t) \<or>
             fst (with_stdout_to_devnull no_output (call (set_up t)) w) = Inr ()"
    and earlier: "run (t\<lparr>tear_down := PyNone\<rparr>) no_output w = (Inr (state, reason, exc), w1, c)"
    and td: "with_stdout_to_devnull no_output (call (tear_down t)) w1 = (Inl e, w2)"
  shows "run t no_output w =
           (if isinstance e Exception then
              (if reason = None \<and> exc = None then Inr (Some False, None, Some (sys_exc_info e))
               else Inr (state, reason, exc))
            else Inl e,
            w2, c @ [Teardown])"
proof -
  have "\<exists>w0. if truthy (set_up t)
           then with_stdout_to_devnull no_output (call (set_up t)) w = (Inr (), w0)
           else w0 = w"
  proof (cases "truthy (set_up t)")
    case True
    with su have "fst (with_stdout_to_devnull no_output (call (set_up t)) w) = Inr ()"
      by simp
    then have "with_stdout_to_devnull no_output (call (set_up t)) w
                 = (Inr (), snd (with_stdout_to_devnull no_output (call (set_up t)) w))"
      by (simp add: prod_eq_iff)
    with True show ?thesis by auto
  next
    case False
    then show ?thesis by simp
  qed
  then obtain w0 where s0: "if truthy (set_up t)
           then with_stdout_to_devnull no_output (call (set_up t)) w = (Inr (), w0)
           else w0 = w" ..
  obtain rb wb where body: "with_stdout_to_devnull no_output (call (fn t)) w0 = (rb, wb)"
    by (cases "with_stdout_to_devnull no_output (call (fn t)) w0")
  have s1: "(if truthy (set_up (t\<lparr>tear_down := PyNone\<rparr>)) then
            (let (r, w') = with_stdout_to_devnull no_output
                             (call (set_up (t\<lparr>tear_down := PyNone\<rparr>))) w
             in (r, w', [Setup]))
          else (Inr (), w, []))
         = (Inr (), w0, if truthy (set_up t) then [Setup] else [])"
    using s0 by (simp split: if_splits)
  have e1: "wb = w1"
    using earlier assms(1) body unfolding run_def s1
    by (cases rb) (auto split: option.splits if_splits)
  show ?thesis
    using earlier assms(1,2) body td
    unfolding run_def s1 setup_step_ok [OF s0] e1
    by (cases rb) (auto split: option.splits if_splits)
qed

text \<open>
  A body that divides by zero and a teardown that raises \<^verbatim>\<open>ValueError\<close>: the outcome is
  the body's failure. A body that passes and the same teardown: the outcome is the
  teardown's failure.
\<close>

theorem teardown_failure_witness:
  "run ((test None PyNone (raising ''td'' ValueError) (raising ''e'' ZeroDivisionError))
          \<lparr>tear_down := PyNone\<rparr>) True world0
     = (Inr (Some False, None, Some (sys_exc_info (raise ZeroDivisionError []))),
        world0\<lparr>closed_files := {NullFile 0}, fresh := 1\<rparr>, [Body]) \<and>
   with_stdout_to_devnull True (call (raising ''td'' ValueError))
        (world0\<lparr>closed_files := {NullFile 0}, fresh := 1\<rparr>)
     = (Inl (raise ValueError []),
        world0\<lparr>closed_files := {NullFile 0, NullFile 1}, fresh := 2\<rparr>) \<and>
   run (test None PyNone (raising ''td'' ValueError) (raising ''e'' ZeroDivisionError)) True world0
     = (Inr (Some False, None, Some (sys_exc_info (raise ZeroDivisionError []))),
        world0\<lparr>closed_files := {NullFile 0, NullFile 1}, fresh := 2\<rparr>, [Body, Teardown]) \<and>
   run (test None PyNone (raising ''td'' ValueError) (passing ''a'')) True world0
     = (Inr (Some False, None, Some (sys_exc_info (raise ValueError []))),
        world0\<lparr>closed_files := {NullFile 0, NullFile 1}, fresh := 2\<rparr>, [Body, Teardown])"
  using teardown_failure
          [of "test None PyNone (raising ''td'' ValueError) (raising ''e'' ZeroDivisionError)"
              True world0 "Some False" None "Some (sys_exc_info (raise ZeroDivisionError []))"
              "world0\<lparr>closed_files := {NullFile 0}, fresh := 1\<rparr>" "[Body]"
              "raise ValueError []"
              "world0\<lparr>closed_files := {NullFile 0, NullFile 1}, fresh := 2\<rparr>"]
        teardown_failure
          [of "test None PyNone (raising ''td'' ValueError) (passing ''a'')"
              True world0 "Some True" None None
              "world0\<lparr>closed_files := {NullFile 0}, fresh := 1\<rparr>" "[Body]"
              "raise ValueError []"
              "world0\<lparr>closed_files := {NullFile 0, NullFile 1}, fresh := 2\<rparr>"]
  by (simp add: run_def scope_defs client_defs isinstance_def raise_def sys_exc_info_def
        insert_commute)

text \<open>
  Without the restriction to \<^verbatim>\<open>Exception\<close>, C2 fails: a teardown that raises \<^verbatim>\<open>KeyboardInterrupt\<close> after a body
  that passed (no failure recorded) does not make \<^verbatim>\<open>run\<close> return Failed; the exception
  leaves \<^verbatim>\<open>run\<close>.
\<close>

theorem teardown_failure_counterexample:
  "truthy (tear_down (test None PyNone (raising ''td'' KeyboardInterrupt) (passing ''a'')
                        :: unit testcase)) \<and>
   fst (with_stdout_to_devnull True (call (raising ''td'' KeyboardInterrupt))
         (world0\<lparr>closed_files := {NullFile 0}, fresh := 1\<rparr>))
     = Inl (raise KeyboardInterrupt []) \<and>
   run ((test None PyNone (raising ''td'' KeyboardInterrupt) (passing ''a''))
          \<lparr>tear_down := PyNone\<rparr>) True world0
     = (Inr (Some True, None, None), world0\<lparr>closed_files := {NullFile 0}, fresh := 1\<rparr>, [Body]) \<and>
   fst (run (test None PyNone (raising ''td'' KeyboardInterrupt) (passing ''a'')) True world0)
     = Inl (raise KeyboardInterrupt []) \<and>
   fst (run (test None PyNone (raising ''td'' KeyboardInterrupt) (passing ''a'')) True world0)
     \<noteq> Inr (Some False, None, Some (sys_exc_info (raise KeyboardInterrupt [])))"
  by (simp add: run_def scope_defs client_defs isinstance_def raise_def)

section \<open>The capture scope\<close>

text \<open>
  Claim C9, with the two values of \<^verbatim>\<open>hide\<close> told apart. For every block and every
  starting state: with \<^verbatim>\<open>hide\<close> true, \<^verbatim>\<open>sys.stdout\<close> is bound after the \<^verbatim>\<open>with\<close>
  statement to the stream it was bound to before, whatever the block did (returned,
  raised, rebound \<^verbatim>\<open>sys.stdout\<close> to another file object), and the block's outcome,
  an exception included, is the statement's outcome; with \<^verbatim>\<open>hide\<close> false the statement
  is the block itself, with no other effect, so that \<^verbatim>\<open>sys.stdout\<close> is left as the
  block left it. (Streams are file objects here: a block that leaves \<^verbatim>\<open>sys.stdout\<close>
  bound to an object without a working \<^verbatim>\<open>close\<close> is outside this statement.)
\<close>

theorem stdout_restored:
  "sys_stdout (snd (with_stdout_to_devnull True block w)) = sys_stdout w \<and>
   fst (with_stdout_to_devnull True block w) = fst (block (snd (enter (init True) w))) \<and>
   with_stdout_to_devnull False block w = block w"
  by (simp add: scope_defs split: prod.splits)

theorem stdout_restored_witness:
  "sys_stdout (snd (with_stdout_to_devnull True (rebinding (UserFile 7)) world0)) = StdStream \<and>
   sys_stdout (snd (with_stdout_to_devnull True (call (raising ''f'' ZeroDivisionError)) world0))
     = StdStream \<and>
   fst (with_stdout_to_devnull True (call (raising ''f'' ZeroDivisionError)) world0)
     = Inl (raise ZeroDivisionError []) \<and>
   with_stdout_to_devnull False (call (printing ''f'' ''hello'')) world0
     = (Inr (), world0\<lparr>out := [(StdStream, ''hello'')]\<rparr>)"
  using stdout_restored [of "rebinding (UserFile 7)" world0]
        stdout_restored [of "call (raising ''f'' ZeroDivisionError)" world0]
        stdout_restored [of "call (printing ''f'' ''hello'')" world0]
  by (simp add: scope_defs client_defs rebinding_def print_def)

text \<open>
  For \<^verbatim>\<open>hide\<close> false, C9 does not hold of every block: a block that rebinds \<^verbatim>\<open>sys.stdout\<close>
  leaves it rebound after the scope, which restores nothing.
\<close>

theorem stdout_restored_counterexample:
  "sys_stdout world0 = StdStream \<and>
   sys_stdout (snd (with_stdout_to_devnull False (rebinding (UserFile 7)) world0)) = UserFile 7"
  by (simp add: scope_defs client_defs rebinding_def)

section \<open>Registration\<close>

lemma issubclass_ValueError_TypeError [simp]: "\<not> issubclass ValueError TypeError"
  by (simp add: ValueError_def TypeError_def Exception_def BaseException_def)

lemma takes_no_positional_arguments_ValueError:
  "takes_no_positional_arguments f = Inl e \<Longrightarrow> exc_type e = ValueError"
  by (cases f)
     (auto simp: takes_no_positional_arguments_def argspec_of_def isinstance_def raise_def
           split: if_splits)

lemma validate_ValueError:
  "validate fs = Some e \<Longrightarrow> exc_type e = ValueError"
  by (induction fs)
     (auto simp: raise_def dest: takes_no_positional_arguments_ValueError
           split: if_splits sum.splits)

text \<open>
  What holds of the registration. A function object without keyword-only parameters and
  without annotations, a built-in and a value that is not callable are \<open>plain\<close>: on
  them the validator of the source computes the validator of the specification, and the
  registration raises exactly when the claim C8 says it does.
\<close>

lemma takes_no_positional_arguments_plain:
  "plain f \<Longrightarrow> takes_no_positional_arguments f = Inr (isZeroArgInvocable f)"
  by (cases f)
     (auto simp: takes_no_positional_arguments_def argspec_of_def isZeroArgInvocable_def
                 binds_def isinstance_def raise_def)

lemma isZeroArgInvocable_False:
  "isZeroArgInvocable a = Some False \<Longrightarrow> \<not> is_None a \<and> callable a"
  by (cases a) (auto simp: isZeroArgInvocable_def)

lemma validate_plain:
  "list_all plain fs \<Longrightarrow>
     validate fs = None \<longleftrightarrow>
       list_all (\<lambda>x. is_None x \<or> (callable x \<and> isZeroArgInvocable x \<noteq> Some False)) fs"
  by (induction fs)
     (auto simp: takes_no_positional_arguments_plain dest: isZeroArgInvocable_False)

lemma registration_error_plain:
  "list_all plain [f, su, td] \<Longrightarrow>
     (\<exists>e. decorating_function ex su td cond f = Inl e) \<longleftrightarrow>
       list_ex (\<lambda>x. \<not> is_None x \<and> (\<not> callable x \<or> isZeroArgInvocable x = Some False))
         [f, su, td]"
  using validate_plain [of "[f, su, td]"]
  by (auto simp: decorating_function_def split: option.splits)

text \<open>
  Claim C8 is what the source documents (\<^verbatim>\<open>takes_no_positional_arguments\<close> is to return
  True if the function requires no positional arguments, and the registration is to
  raise if the function takes positional arguments, since no value could be given for
  them), and the code does not meet it. A bound method \<^verbatim>\<open>obj.m\<close> with
  \<^verbatim>\<open>def m(self): pass\<close> and a function \<^verbatim>\<open>def f() -> None: pass\<close> are callable and
  require no argument: the validator of the specification answers True and the call
  without arguments returns. Yet \<^verbatim>\<open>takes_no_positional_arguments\<close> answers False for the
  method (\<^verbatim>\<open>getargspec\<close> counts \<^verbatim>\<open>self\<close>) and raises for the annotated function (only
  \<^verbatim>\<open>TypeError\<close> is caught), and decorating with either of them raises \<^verbatim>\<open>ValueError\<close>.
\<close>

theorem registration_rejects_invocable:
  "callable (PyMethod ''m'' self_only (\<lambda>w. (Inr (), w)) :: unit pyobj) \<and>
   isZeroArgInvocable (PyMethod ''m'' self_only (\<lambda>w. (Inr (), w)) :: unit pyobj) = Some True \<and>
   call (PyMethod ''m'' self_only (\<lambda>w. (Inr (), w))) world0 = (Inr (), world0) \<and>
   takes_no_positional_arguments (PyMethod ''m'' self_only (\<lambda>w. (Inr (), w)) :: unit pyobj)
     = Inr (Some False) \<and>
   decorating_function None (PyMethod ''m'' self_only (\<lambda>w. (Inr (), w))) PyNone (PyBool True)
       (passing ''a'' :: unit pyobj)
     = Inl (raise ValueError ''isn't callable without positional arguments.'') \<and>
   callable (PyFunction ''f'' returns_None (\<lambda>w. (Inr (), w)) :: unit pyobj) \<and>
   isZeroArgInvocable (PyFunction ''f'' returns_None (\<lambda>w. (Inr (), w)) :: unit pyobj)
     = Some True \<and>
   call (PyFunction ''f'' returns_None (\<lambda>w. (Inr (), w))) world0 = (Inr (), world0) \<and>
   takes_no_positional_arguments (PyFunction ''f'' returns_None (\<lambda>w. (Inr (), w)) :: unit pyobj)
     = Inl (raise ValueError ''Function has keyword-only arguments or annotations'') \<and>
   decorating_function None PyNone PyNone (PyBool True)
       (PyFunction ''f'' returns_None (\<lambda>w. (Inr (), w)) :: unit pyobj)
     = Inl (raise ValueError ''Function has keyword-only arguments or annotations'')"
  by (simp add: decorating_function_def takes_no_positional_arguments_def argspec_of_def
        isZeroArgInvocable_def client_defs self_only_def returns_None_def isinstance_def
        raise_def)

text \<open>
  The registrations of tests.py that must fail (\<^verbatim>\<open>setup=42\<close>, \<^verbatim>\<open>teardown=1337\<close>,
  \<^verbatim>\<open>setup=lambda x: x\<close>) do, and a built-in as setup is accepted.
\<close>

lemma registrations_of_tests_py:
  "decorating_function None (PyInt 42) PyNone (PyBool True) (passing ''a'' :: unit pyobj)
     = Inl (raise ValueError ''isn't callable.'') \<and>
   decorating_function None PyNone (PyInt 1337) (PyBool True) (passing ''a'' :: unit pyobj)
     = Inl (raise ValueError ''isn't callable.'') \<and>
   decorating_function None (PyFunction ''lambda'' one_param (\<lambda>w. (Inr (), w))) PyNone (PyBool True)
       (passing ''a'' :: unit pyobj)
     = Inl (raise ValueError ''isn't callable without positional arguments.'') \<and>
   decorating_function None (PyBuiltin ''print'' (\<lambda>w. (Inr (), w))) PyNone (PyBool True)
       (passing ''a'' :: unit pyobj)
     = Inr \<lparr>fn = passing ''a'', expected = None, set_up = PyBuiltin ''print'' (\<lambda>w. (Inr (), w)),
            tear_down = PyNone, run_if = PyBool True\<rparr>"
  by (simp add: decorating_function_def takes_no_positional_arguments_def argspec_of_def
        client_defs one_param_def isinstance_def raise_def)

text \<open>
  Claim C10, with the validation made explicit. For a callable \<open>c\<close>,
  \<^verbatim>\<open>Swallow.__call__(c)\<close> never returns a decorator (nothing is gated): either it appends
  and returns the test whose body is \<open>c\<close> itself, with run condition \<^verbatim>\<open>True\<close>, the
  suite's setup and teardown and no expected kind, which happens exactly when \<open>c\<close> and
  the suite's setup and teardown pass the validation; or it raises the \<^verbatim>\<open>ValueError\<close> of
  the validation and the suite is unchanged. For a value \<open>c\<close> that is not callable, the
  call returns the decorator that has captured \<open>c\<close>; a function decorated by it is
  registered with run condition \<open>c\<close>, and is skipped by \<^verbatim>\<open>run\<close> when \<open>c\<close> is false.
\<close>

theorem callable_run_condition:
  "(callable c \<longrightarrow>
      (\<forall>d. fst (Swallow_call self c) \<noteq> Inr (Decorator d)) \<and>
      (\<forall>t. fst (Swallow_call self c) = Inr (Registered t) \<longrightarrow>
           fn t = c \<and> run_if t = PyBool True \<and> expected t = None \<and>
           set_up t = self_setup self \<and> tear_down t = self_teardown self \<and>
           snd (Swallow_call self c) = self\<lparr>tests := tests self @ [t]\<rparr>) \<and>
      (\<forall>e. fst (Swallow_call self c) = Inl e \<longrightarrow>
           exc_type e = ValueError \<and> snd (Swallow_call self c) = self) \<and>
      ((\<exists>t. fst (Swallow_call self c) = Inr (Registered t)) \<longleftrightarrow>
           validate [c, self_setup self, self_teardown self] = None)) \<and>
   (\<not> callable c \<longrightarrow>
      Swallow_call self c = (Inr (Decorator c), self) \<and>
      (\<forall>f t. fst (wrapper None c self f) = Inr t \<longrightarrow>
           fn t = f \<and> run_if t = c \<and>
           snd (wrapper None c self f) = self\<lparr>tests := tests self @ [t]\<rparr> \<and>
           (\<forall>no_output w. \<not> truthy c \<longrightarrow> run t no_output w = (Inr (None, None, None), w, []))))"
proof -
  have v: "\<And>e. validate [c, self_setup self, self_teardown self] = Some e
             \<Longrightarrow> exc_type e = ValueError"
    by (rule validate_ValueError)
  show ?thesis
    using v
    by (auto simp: Swallow_call_def wrapper_def singletest_def decorating_function_def run_def
             split: option.splits)
qed

text \<open>
  \<^verbatim>\<open>t(pred)\<close> for a function \<^verbatim>\<open>pred\<close> without parameters registers \<^verbatim>\<open>pred\<close> as a test;
  \<^verbatim>\<open>t(False)\<close> returns a decorator, and the function it decorates is never run.
\<close>

theorem callable_run_condition_witness:
  "callable (passing ''pred'' :: unit pyobj) \<and>
   Swallow_call (Swallow_init PyNone PyNone) (passing ''pred'' :: unit pyobj)
     = (Inr (Registered (test None PyNone PyNone (passing ''pred''))),
        \<lparr>tests = [test None PyNone PyNone (passing ''pred'')],
           self_setup = PyNone, self_teardown = PyNone\<rparr>) \<and>
   \<not> callable (PyBool False :: unit pyobj) \<and>
   Swallow_call (Swallow_init PyNone PyNone) (PyBool False :: unit pyobj)
     = (Inr (Decorator (PyBool False)), Swallow_init PyNone PyNone) \<and>
   wrapper None (PyBool False) (Swallow_init PyNone PyNone)
       (raising ''b'' ZeroDivisionError :: unit pyobj)
     = (Inr ((test None PyNone PyNone (raising ''b'' ZeroDivisionError))\<lparr>run_if := PyBool False\<rparr>),
        \<lparr>tests = [(test None PyNone PyNone (raising ''b'' ZeroDivisionError))
                      \<lparr>run_if := PyBool False\<rparr>],
           self_setup = PyNone, self_teardown = PyNone\<rparr>) \<and>
   run ((test None PyNone PyNone (raising ''b'' ZeroDivisionError))\<lparr>run_if := PyBool False\<rparr>)
       True world0
     = (Inr (None, None, None), world0, [])"
  using callable_run_condition [of "passing ''pred'' :: unit pyobj" "Swallow_init PyNone PyNone"]
        callable_run_condition [of "PyBool False :: unit pyobj" "Swallow_init PyNone PyNone"]
  by (simp add: Swallow_call_def Swallow_init_def wrapper_def singletest_def decorating_function_def
        takes_no_positional_arguments_def argspec_of_def client_defs run_def isinstance_def
        raise_def)

text \<open>
  C10 does not hold of every callable: \<^verbatim>\<open>t(pred)\<close> for a callable \<^verbatim>\<open>pred\<close> with a positional
  parameter registers nothing; the call raises \<^verbatim>\<open>ValueError\<close>.
\<close>

theorem callable_run_condition_counterexample:
  "callable (PyFunction ''pred'' one_param (\<lambda>w. (Inr (), w)) :: unit pyobj) \<and>
   Swallow_call (Swallow_init PyNone PyNone)
       (PyFunction ''pred'' one_param (\<lambda>w. (Inr (), w)) :: unit pyobj)
     = (Inl (raise ValueError ''isn't callable without positional arguments.''),
        Swallow_init PyNone PyNone) \<and>
   tests (snd (Swallow_call (Swallow_init PyNone PyNone)
                 (PyFunction ''pred'' one_param (\<lambda>w. (Inr (), w)) :: unit pyobj))) = []"
  by (simp add: Swallow_call_def Swallow_init_def singletest_def decorating_function_def
        takes_no_positional_arguments_def argspec_of_def one_param_def isinstance_def raise_def)

section \<open>Iterating over a suite\<close>

lemma scope_False [simp]: "with_stdout_to_devnull False block v = block v"
  by (simp add: scope_defs split: prod.splits)












section \<open>Running a suite\<close>

lemma report_counts:
  assumes "report lib ee (state, reason, exc) (p, n, f) tvt w = (r, c', tvt', w')"
  shows "c' = (if state = Some True then (p + 1, n, f)
               else if state = None then (p, n + 1, f) else (p, n, f + 1))"
  using assms
  by (auto simp: report_def Let_def case_prod_beta split: if_splits option.splits sum.splits)

lemma run_loop_Cons_Inr:
  assumes "run_loop lib no ee (t # ts) c tvt w = (Inr c', w', os)"
  obtains w1 result w2 steps c1 tvt1 w3 os' where
    "print (''Testing '' @ name_of (fn t) @ '': '') w = (Inr (), w1)"
    "run t no w1 = (Inr result, w2, steps)"
    "report lib ee result c tvt w2 = (Inr (), c1, tvt1, w3)"
    "run_loop lib no ee ts c1 tvt1 w3 = (Inr c', w', os')"
    "os = result # os'"
proof -
  obtain p w1 where 0: "print (''Testing '' @ name_of (fn t) @ '': '') w = (p, w1)"
    by (cases "print (''Testing '' @ name_of (fn t) @ '': '') w")
  show thesis
  proof (cases p)
    case (Inl e)
    with assms 0 show thesis by simp
  next
    case pr: (Inr u)
    obtain r w2 steps where 1: "run t no w1 = (r, w2, steps)"
      by (cases "run t no w1")
    show thesis
    proof (cases r)
      case (Inl e)
      with assms 0 pr 1 show thesis by simp
    next
      case (Inr result)
      obtain rr c1 tvt1 w3 where 2: "report lib ee result c tvt w2 = (rr, c1, tvt1, w3)"
        by (cases "report lib ee result c tvt w2")
      show thesis
      proof (cases rr)
        case (Inl e)
        with assms 0 pr 1 2 Inr show thesis by simp
      next
        case rrInr: (Inr u')
        obtain res w4 os' where 3: "run_loop lib no ee ts c1 tvt1 w3 = (res, w4, os')"
          by (cases "run_loop lib no ee ts c1 tvt1 w3")
        from assms 0 pr 1 2 3 Inr rrInr have "res = Inr c'" "w4 = w'" "os = result # os'"
          by simp_all
        with 0 pr 1 2 3 Inr rrInr show thesis
          by (intro that [of w1 result w2 steps c1 tvt1 w3 os']) simp_all
      qed
    qed
  qed
qed

lemma run_loop_counts:
  assumes "run_loop lib no ee ts (p, n, f) tvt w = (Inr (p', n', f'), w', os)"
  shows "length os = length ts \<and>
         p' = p + int (length (filter (\<lambda>r. fst r = Some True) os)) \<and>
         n' = n + int (length (filter (\<lambda>r. fst r = None) os)) \<and>
         f' = f + int (length (filter (\<lambda>r. fst r = Some False) os)) \<and>
         (\<forall>i<length os. \<exists>v. fst (run (ts ! i) no v) = Inr (os ! i))"
  using assms
proof (induction ts arbitrary: p n f tvt w os)
  case Nil
  then show ?case by simp
next
  case (Cons t ts)
  from Cons.prems obtain w1 result w2 steps c1 tvt1 w3 os' where
    1: "run t no w1 = (Inr result, w2, steps)" and
    2: "report lib ee result (p, n, f) tvt w2 = (Inr (), c1, tvt1, w3)" and
    3: "run_loop lib no ee ts c1 tvt1 w3 = (Inr (p', n', f'), w', os')" and
    4: "os = result # os'"
    by (rule run_loop_Cons_Inr)
  obtain state reason exc where r: "result = (state, reason, exc)" by (cases result)
  obtain p1 n1 f1 where c1: "c1 = (p1, n1, f1)" by (cases c1)
  note rc = report_counts [OF 2 [unfolded r]]
  note ih = Cons.IH [OF 3 [unfolded c1]]
  have nth: "\<forall>i<length os. \<exists>v. fst (run ((t # ts) ! i) no v) = Inr (os ! i)"
  proof (intro allI impI)
    fix i assume "i < length os"
    show "\<exists>v. fst (run ((t # ts) ! i) no v) = Inr (os ! i)"
    proof (cases i)
      case 0
      with 1 4 show ?thesis by (auto intro: exI [of _ w1])
    next
      case (Suc j)
      with \<open>i < length os\<close> 4 ih show ?thesis by simp
    qed
  qed
  show ?case
    using ih rc nth unfolding 4 r c1
    by (auto split: if_splits)
qed

lemma length_filter_states:
  "int (length (filter (\<lambda>r. fst r = Some True) os)) +
   int (length (filter (\<lambda>r. fst r = None) os)) +
   int (length (filter (\<lambda>r. fst r = Some False) os)) = int (length (os :: outcome list))"
  by (induction os) auto

text \<open>
  When \<^verbatim>\<open>sys.stdout\<close> is bound to an open file, \<^verbatim>\<open>print\<close> returns; what it writes does
  not change the binding or the files.
\<close>

lemma print_open:
  "stdout_open w \<Longrightarrow> print s w = (Inr (), w\<lparr>out := out w @ [(sys_stdout w, s)]\<rparr>)"
  by (simp add: print_def stdout_open_def)

lemma stdout_open_out [simp]: "stdout_open (w\<lparr>out := x\<rparr>) = stdout_open w"
  by (simp add: stdout_open_def split: stream.splits)

lemma stdout_open_err [simp]: "stdout_open (w\<lparr>err := x\<rparr>) = stdout_open w"
  by (simp add: stdout_open_def split: stream.splits)

lemma stdout_open_print_stderr [simp]: "stdout_open (print_stderr s w) = stdout_open w"
  by (simp add: print_stderr_def)

text \<open>
  The capture scope around a client function that leaves the binding of \<^verbatim>\<open>sys.stdout\<close>
  and the closed files alone: \<^verbatim>\<open>__exit__\<close> closes the file that \<^verbatim>\<open>__enter__\<close> opened and
  \<^verbatim>\<open>sys.stdout\<close> is bound to an open file again.
\<close>

lemma scope_open:
  assumes f: "\<forall>v. sys_stdout (snd (call x v)) = sys_stdout v \<and>
                  closed_files (snd (call x v)) = closed_files v \<and>
                  fresh v \<le> fresh (snd (call x v))"
      and o: "stdout_open w"
  shows "stdout_open (snd (with_stdout_to_devnull h (call x) w))"
proof (cases h)
  case False
  from f [rule_format, of w] o show ?thesis
    by (auto simp: False with_stdout_to_devnull_def enter_def exit_def init_def stdout_open_def
        case_prod_beta split: stream.splits)
next
  case True
  define v where "v = w\<lparr>fresh := Suc (fresh w), sys_stdout := NullFile (fresh w)\<rparr>"
  have r: "snd (with_stdout_to_devnull h (call x) w)
             = (snd (call x v))\<lparr>closed_files := insert (sys_stdout (snd (call x v)))
                                                   (closed_files (snd (call x v))),
                                 sys_stdout := sys_stdout w\<rparr>"
    by (simp add: True with_stdout_to_devnull_def enter_def exit_def init_def open_devnull_def
        case_prod_beta Let_def v_def)
  from f [rule_format, of v] have
    "sys_stdout (snd (call x v)) = NullFile (fresh w)"
    "closed_files (snd (call x v)) = closed_files w"
    "Suc (fresh w) \<le> fresh (snd (call x v))"
    by (simp_all add: v_def)
  with o show ?thesis
    unfolding r by (auto simp: stdout_open_def split: stream.splits)
qed

lemma scope_outcome:
  "fst (with_stdout_to_devnull h block w) = fst (block (snd (enter (init h) w)))"
  by (simp add: with_stdout_to_devnull_def split: prod.splits)

lemma run_returns:
  assumes ok: "\<forall>x\<in>set (called t).
                 \<forall>v. sys_stdout (snd (call x v)) = sys_stdout v \<and>
                     closed_files (snd (call x v)) = closed_files v \<and>
                     fresh v \<le> fresh (snd (call x v)) \<and>
                     (\<forall>e. fst (call x v) = Inl e \<longrightarrow> isinstance e Exception \<and> P e)"
      and o: "stdout_open w"
  shows "\<exists>state reason exc.
           fst (run t no w) = Inr (state, reason, exc) \<and>
           (state = Some False \<and> reason = None \<longrightarrow> (\<exists>e. exc = Some (sys_exc_info e) \<and> P e)) \<and>
           reason \<noteq> Some [] \<and>
           stdout_open (fst (snd (run t no w)))"
proof (cases "truthy (run_if t)")
  case False
  with o show ?thesis by (simp add: run_def)
next
  case cond: True
  have okx: "\<And>x v e. x \<in> set (called t) \<Longrightarrow>
               fst (with_stdout_to_devnull no (call x) v) = Inl e \<Longrightarrow> isinstance e Exception \<and> P e"
    using ok unfolding scope_outcome by blast
  have opx: "\<And>x v. x \<in> set (called t) \<Longrightarrow> stdout_open v \<Longrightarrow>
               stdout_open (snd (with_stdout_to_devnull no (call x) v))"
    using ok by (intro scope_open) blast+
  have inb: "fn t \<in> set (called t)"
    and ins: "truthy (set_up t) \<Longrightarrow> set_up t \<in> set (called t)"
    and int: "truthy (tear_down t) \<Longrightarrow> tear_down t \<in> set (called t)"
    using cond by (simp_all add: called_def)
  define S where "S = with_stdout_to_devnull no (call (set_up t)) w"
  define w0 where "w0 = (if truthy (set_up t) then snd S else w)"
  define B where "B = with_stdout_to_devnull no (call (fn t)) w0"
  define T where "T = with_stdout_to_devnull no (call (tear_down t)) (snd B)"
  note defs = S_def w0_def B_def T_def
  have oS: "truthy (set_up t) \<Longrightarrow> stdout_open (snd S)"
    unfolding S_def using ins o by (intro opx)
  have o0: "stdout_open w0"
    using oS o by (simp add: w0_def)
  have oB: "stdout_open (snd B)"
    unfolding B_def using inb o0 by (intro opx)
  have oT: "truthy (tear_down t) \<Longrightarrow> stdout_open (snd T)"
    unfolding T_def using int oB by (intro opx)
  show ?thesis
  proof (cases "truthy (set_up t) \<and> isl (fst S)")
    case True
    then obtain e where e: "fst S = Inl e" by (cases "fst S") auto
    from okx [OF ins e [unfolded S_def]] cond True e oS show ?thesis
      by (auto simp: run_def case_prod_beta S_def)
  next
    case su: False
    have s: "(if truthy (set_up t) then
          (let (r, w') = with_stdout_to_devnull no (call (set_up t)) w
           in (r, w', [Setup]))
        else (Inr (), w, []))
       = (Inr (), w0, if truthy (set_up t) then [Setup] else [])"
      using su by (cases "fst S") (auto simp: defs case_prod_beta prod_eq_iff)
    show ?thesis
    proof (cases "fst B")
      case bl: (Inl e)
      note eb = okx [OF inb bl [unfolded B_def]]
      show ?thesis
      proof (cases "truthy (tear_down t)")
        case False
        with cond bl eb oB show ?thesis
          unfolding run_def s by (auto simp: case_prod_beta B_def [symmetric])
      next
        case td: True
        show ?thesis
        proof (cases "fst T")
          case (Inl e')
          with okx [OF int [OF td] Inl [unfolded T_def]] cond bl eb td oT show ?thesis
            unfolding run_def s by (auto simp: case_prod_beta B_def [symmetric] T_def [symmetric])
        next
          case (Inr u)
          with cond bl eb td oT show ?thesis
            unfolding run_def s by (auto simp: case_prod_beta B_def [symmetric] T_def [symmetric])
        qed
      qed
    next
      case br: (Inr u)
      show ?thesis
      proof (cases "truthy (tear_down t)")
        case False
        with cond br oB show ?thesis
          unfolding run_def s
          by (auto simp: case_prod_beta B_def [symmetric] no_exception_reason_def split: option.splits)
      next
        case td: True
        show ?thesis
        proof (cases "fst T")
          case (Inl e')
          with okx [OF int [OF td] Inl [unfolded T_def]] cond br td oT show ?thesis
            unfolding run_def s
            by (auto simp: case_prod_beta B_def [symmetric] T_def [symmetric] no_exception_reason_def
                     split: option.splits)
        next
          case (Inr u')
          with cond br td oT show ?thesis
            unfolding run_def s
            by (auto simp: case_prod_beta B_def [symmetric] T_def [symmetric] no_exception_reason_def
                     split: option.splits)
        qed
      qed
    qed
  qed
qed

lemma report_returns:
  assumes "state = Some False \<and> reason = None \<longrightarrow>
             (\<exists>e. exc = Some (sys_exc_info e) \<and>
                  (ee \<longrightarrow> (\<exists>r. get_meaningful_expression lib (exc_tb e) = Inr r)))"
      and "reason \<noteq> Some []"
      and o: "stdout_open w"
  shows "\<exists>c' tvt' w'. report lib ee (state, reason, exc) c tvt w = (Inr (), c', tvt', w') \<and>
                       stdout_open w'"
proof -
  obtain p n f where c: "c = (p, n, f)" by (cases c) auto
  note pr = print_open [OF o]
  show ?thesis
  proof (cases "state = Some False")
    case False
    with o show ?thesis by (cases state) (auto simp: report_def c Let_def pr)
  next
    case True
    show ?thesis
    proof (cases reason)
      case (Some msg)
      with assms(2) True o show ?thesis by (simp add: report_def c pr)
    next
      case None
      with assms(1) True obtain e where
        e: "exc = Some (sys_exc_info e)" "ee \<longrightarrow> (\<exists>r. get_meaningful_expression lib (exc_tb e) = Inr r)"
        by blast
      show ?thesis
        using True None e o
        by (cases ee) (auto simp: report_def c pr sys_exc_info_def print_exception_def Let_def)
    qed
  qed
qed

lemma run_loop_returns:
  assumes "\<forall>t\<in>set ts. \<forall>x\<in>set (called t).
             \<forall>v. sys_stdout (snd (call x v)) = sys_stdout v \<and>
                 closed_files (snd (call x v)) = closed_files v \<and>
                 fresh v \<le> fresh (snd (call x v)) \<and>
                 (\<forall>e. fst (call x v) = Inl e \<longrightarrow>
                    isinstance e Exception \<and>
                    (ee \<longrightarrow> (\<exists>r. get_meaningful_expression lib (exc_tb e) = Inr r)))"
      and "stdout_open w"
  shows "\<exists>c' w' os. run_loop lib no ee ts c tvt w = (Inr c', w', os) \<and> stdout_open w'"
  using assms
proof (induction ts arbitrary: c tvt w)
  case Nil
  then show ?case by (cases c) auto
next
  case (Cons t ts)
  define w1 where "w1 = w\<lparr>out := out w @ [(sys_stdout w, ''Testing '' @ name_of (fn t) @ '': '')]\<rparr>"
  have p1: "print (''Testing '' @ name_of (fn t) @ '': '') w = (Inr (), w1)"
    using Cons.prems(2) by (simp add: print_open w1_def)
  have o1: "stdout_open w1"
    using Cons.prems(2) by (simp add: w1_def)
  have "\<forall>x\<in>set (called t).
             \<forall>v. sys_stdout (snd (call x v)) = sys_stdout v \<and>
                 closed_files (snd (call x v)) = closed_files v \<and>
                 fresh v \<le> fresh (snd (call x v)) \<and>
                 (\<forall>e. fst (call x v) = Inl e \<longrightarrow>
                    isinstance e Exception \<and>
                    (ee \<longrightarrow> (\<exists>r. get_meaningful_expression lib (exc_tb e) = Inr r)))"
    using Cons.prems(1) by simp
  from run_returns [OF this o1, of no]
  obtain state reason exc where
    r: "fst (run t no w1) = Inr (state, reason, exc)" and
    p: "state = Some False \<and> reason = None \<longrightarrow>
          (\<exists>e. exc = Some (sys_exc_info e) \<and>
               (ee \<longrightarrow> (\<exists>r. get_meaningful_expression lib (exc_tb e) = Inr r)))" and
    q: "reason \<noteq> Some []" and
    o2: "stdout_open (fst (snd (run t no w1)))"
    by blast
  from report_returns [OF p q o2, of c tvt]
  obtain c1 tvt1 w3 where
    rep: "report lib ee (state, reason, exc) c tvt (fst (snd (run t no w1))) = (Inr (), c1, tvt1, w3)"
    and o3: "stdout_open w3"
    by blast
  have "\<exists>c' w' os. run_loop lib no ee ts c1 tvt1 w3 = (Inr c', w', os) \<and> stdout_open w'"
    using Cons.prems(1) o3 by (intro Cons.IH) simp_all
  then obtain c' w' os where rest: "run_loop lib no ee ts c1 tvt1 w3 = (Inr c', w', os)"
    and o4: "stdout_open w'"
    by blast
  obtain w2 steps where run: "run t no w1 = (Inr (state, reason, exc), w2, steps)"
    using r by (cases "run t no w1") auto
  from rep run have rep': "report lib ee (state, reason, exc) c tvt w2 = (Inr (), c1, tvt1, w3)"
    by simp
  show ?case
    using p1 run rep' rest o4 by (cases c') auto
qed

text \<open>
  Claim C7, for the runs that return. Whenever \<^verbatim>\<open>Swallow.run\<close> returns
  (passed, not_run, failed): it has called
  \<^verbatim>\<open>t.run(no_output)\<close> once for each registered case, in order (\<open>os\<close> lists the
  outcomes returned); passed, not_run and failed are the numbers of those outcomes
  whose state is \<^verbatim>\<open>True\<close>, \<^verbatim>\<open>None\<close> and \<^verbatim>\<open>False\<close>, so that each case counts in exactly
  one of them; and passed + not_run + failed is the number of registered cases. And
  \<^verbatim>\<open>Swallow.run\<close> does return, whenever \<^verbatim>\<open>sys.stdout\<close> is bound to an open file when it
  is called and every client function that \<^verbatim>\<open>run\<close> calls (the body of each case whose run
  condition is true, and its setup and teardown if they are present) leaves the binding
  of \<^verbatim>\<open>sys.stdout\<close> and the closed files as they are (no file object comes into being
  twice), raises nothing outside \<^verbatim>\<open>Exception\<close> and, if errors are expanded, raises only
  exceptions on whose traceback the expander succeeds.
\<close>

theorem suite_counts:
  "(\<forall>passed not_run failed w' os.
      Swallow_run lib elapsed self no_output expand_errors w = (Inr (passed, not_run, failed), w', os)
      \<longrightarrow>
        length os = length (tests self) \<and>
        (\<forall>i<length os. \<exists>v. fst (run (tests self ! i) no_output v) = Inr (os ! i)) \<and>
        passed = int (length (filter (\<lambda>r. fst r = Some True) os)) \<and>
        not_run = int (length (filter (\<lambda>r. fst r = None) os)) \<and>
        failed = int (length (filter (\<lambda>r. fst r = Some False) os)) \<and>
        passed + not_run + failed = int (length (tests self))) \<and>
   (stdout_open w \<and>
    (\<forall>t\<in>set (tests self). \<forall>x\<in>set (called t). \<forall>v.
        sys_stdout (snd (call x v)) = sys_stdout v \<and>
        closed_files (snd (call x v)) = closed_files v \<and>
        fresh v \<le> fresh (snd (call x v)) \<and>
        (\<forall>e. fst (call x v) = Inl e \<longrightarrow>
           isinstance e Exception \<and>
           (expand_errors \<longrightarrow> (\<exists>r. get_meaningful_expression lib (exc_tb e) = Inr r))))
      \<longrightarrow> (\<exists>c w' os. Swallow_run lib elapsed self no_output expand_errors w = (Inr c, w', os)))"
proof (intro conjI allI impI)
  fix passed not_run failed w' os
  assume run: "Swallow_run lib elapsed self no_output expand_errors w
                 = (Inr (passed, not_run, failed), w', os)"
  obtain res w1 os1 where
    loop: "run_loop lib no_output expand_errors (tests self) (0, 0, 0) None w = (res, w1, os1)"
    by (cases "run_loop lib no_output expand_errors (tests self) (0, 0, 0) None w")
  from run loop have "res = Inr (passed, not_run, failed)" "os1 = os"
    by (auto simp: Swallow_run_def timer_def run_method_def split: sum.splits prod.splits)
  with loop have l: "run_loop lib no_output expand_errors (tests self) (0, 0, 0) None w
                       = (Inr (passed, not_run, failed), w1, os)"
    by simp
  note c = run_loop_counts [OF l]
  from c show "length os = length (tests self)" by simp
  from c show "passed = int (length (filter (\<lambda>r. fst r = Some True) os))" by simp
  from c show "not_run = int (length (filter (\<lambda>r. fst r = None) os))" by simp
  from c show "failed = int (length (filter (\<lambda>r. fst r = Some False) os))" by simp
  from c length_filter_states [of os]
  show "passed + not_run + failed = int (length (tests self))" by simp
  fix i assume "i < length os"
  with c show "\<exists>v. fst (run (tests self ! i) no_output v) = Inr (os ! i)" by simp
next
  assume a: "stdout_open w \<and>
    (\<forall>t\<in>set (tests self). \<forall>x\<in>set (called t). \<forall>v.
        sys_stdout (snd (call x v)) = sys_stdout v \<and>
        closed_files (snd (call x v)) = closed_files v \<and>
        fresh v \<le> fresh (snd (call x v)) \<and>
        (\<forall>e. fst (call x v) = Inl e \<longrightarrow>
           isinstance e Exception \<and>
           (expand_errors \<longrightarrow> (\<exists>r. get_meaningful_expression lib (exc_tb e) = Inr r))))"
  from run_loop_returns [OF a [THEN conjunct2] a [THEN conjunct1], of no_output "(0, 0, 0)" None]
  obtain c' w' os where
    l: "run_loop lib no_output expand_errors (tests self) (0, 0, 0) None w = (Inr c', w', os)"
    and o: "stdout_open w'"
    by blast
  show "\<exists>c w' os. Swallow_run lib elapsed self no_output expand_errors w = (Inr c, w', os)"
    using l o by (cases c') (simp add: Swallow_run_def timer_def run_method_def print_open)
qed

text \<open>
  A suite run with captured output and with expansion: one case passes, one is not run,
  one fails with a \<^verbatim>\<open>ZeroDivisionError\<close> whose trace and expansion are written to
  \<^verbatim>\<open>sys.stderr\<close>, one passes by raising the expected exception; the run returns
  (2, 1, 1). And the suite of tests.py, run with captured output and without expansion:
  3 passed, 1 not run, 3 failed, and the report that is printed.
\<close>

theorem suite_counts_witness:
  "(\<exists>c w' os. Swallow_run lib0 ''0.00'' expanding_suite True True world0 = (Inr c, w', os)) \<and>
   fst (Swallow_run lib0 ''0.00'' expanding_suite True True world0) = Inr (2, 1, 1) \<and>
   (2::int) + 1 + 1 = int (length (tests expanding_suite)) \<and>
   err (fst (snd (Swallow_run lib0 ''0.00'' expanding_suite True True world0)))
     = [''Traceback (most recent call last): ZeroDivisionError'', ''    1 // 0''] \<and>
   fst (Swallow_run lib0 ''0.00'' tests_py_suite True False world0) = Inr (3, 1, 3) \<and>
   map fst (snd (snd (Swallow_run lib0 ''0.00'' tests_py_suite True False world0)))
     = [Some True, None, Some True, Some True, Some False, Some False, Some False] \<and>
   (3::int) + 1 + 3 = int (length (tests tests_py_suite)) \<and>
   console (fst (snd (Swallow_run lib0 ''0.00'' tests_py_suite True False world0)))
     = [''Testing a: '', ''PASS'', ''Testing b: '', ''NOT RUN'', ''Testing c: '', ''PASS'',
        ''Testing d: '', ''PASS'', ''Testing e: '', ''FAIL'', ''Testing f: '', ''FAIL'',
        ''Testing g: '', ''FAIL'', [], ''7 tests, 3 PASS, 1 NOT RUN, 3 FAIL'',
        ''Executed in 0.00 seconds.'']"
proof -
  have g: "get_meaningful_expression lib0 [frame_e] = Inr (''1 // x'', ''1 // 0'')"
    by (simp add: get_meaningful_expression_def lib0_def frame_e_def getitem_def substitute_def)
  have h: "stdout_open world0 \<and>
    (\<forall>t\<in>set (tests expanding_suite). \<forall>x\<in>set (called t). \<forall>v :: unit world.
        sys_stdout (snd (call x v)) = sys_stdout v \<and>
        closed_files (snd (call x v)) = closed_files v \<and>
        fresh v \<le> fresh (snd (call x v)) \<and>
        (\<forall>e. fst (call x v) = Inl e \<longrightarrow>
           isinstance e Exception \<and>
           (True \<longrightarrow> (\<exists>r. get_meaningful_expression lib0 (exc_tb e) = Inr r))))"
    by (auto simp: expanding_suite_def called_def client_defs dividing_def stdout_open_def g
          isinstance_def class_defs)
  from suite_counts [of lib0 "''0.00''" expanding_suite True True world0, THEN conjunct2,
                     rule_format, OF h]
  have ex: "\<exists>c w' os. Swallow_run lib0 ''0.00'' expanding_suite True True world0 = (Inr c, w', os)" .
  have f: "format_exception lib0 ty val tb = ''Traceback (most recent call last): '' @ cls_name ty"
    for ty val tb
    by (simp add: lib0_def)
  have e1: "fst (Swallow_run lib0 ''0.00'' expanding_suite True True world0) = Inr (2, 1, 1)"
    "err (fst (snd (Swallow_run lib0 ''0.00'' expanding_suite True True world0)))
       = [''Traceback (most recent call last): ZeroDivisionError'', ''    1 // 0'']"
    by (simp_all add: Swallow_run_def timer_def run_method_def report_def print_exception_def g f
        expanding_suite_def run_def scope_defs client_defs dividing_def
        isinstance_def sys_exc_info_def class_defs print_def print_stderr_def Let_def
        numeral_eq_Suc)
  obtain w1 os1 where
    r1: "Swallow_run lib0 ''0.00'' expanding_suite True True world0 = (Inr (2, 1, 1), w1, os1)"
    using e1(1) by (cases "Swallow_run lib0 ''0.00'' expanding_suite True True world0") auto
  from suite_counts [of lib0 "''0.00''" expanding_suite True True world0,
                     THEN conjunct1, rule_format, OF r1]
  have s1: "(2::int) + 1 + 1 = int (length (tests expanding_suite))"
    by simp
  have e: "fst (Swallow_run lib0 ''0.00'' tests_py_suite True False world0) = Inr (3, 1, 3)"
    "map fst (snd (snd (Swallow_run lib0 ''0.00'' tests_py_suite True False world0)))
       = [Some True, None, Some True, Some True, Some False, Some False, Some False]"
    "console (fst (snd (Swallow_run lib0 ''0.00'' tests_py_suite True False world0)))
     = [''Testing a: '', ''PASS'', ''Testing b: '', ''NOT RUN'', ''Testing c: '', ''PASS'',
        ''Testing d: '', ''PASS'', ''Testing e: '', ''FAIL'', ''Testing f: '', ''FAIL'',
        ''Testing g: '', ''FAIL'', [], ''7 tests, 3 PASS, 1 NOT RUN, 3 FAIL'',
        ''Executed in 0.00 seconds.'']"
    by (simp_all add: Swallow_run_def timer_def run_method_def report_def print_exception_def
        tests_py_suite_def tests_py_def run_def scope_defs client_defs lib0_def summary_def
        isinstance_def raise_def sys_exc_info_def class_defs print_def print_stderr_def console_def
        str_int_def no_exception_reason_def Let_def)
  obtain w' os where
    r: "Swallow_run lib0 ''0.00'' tests_py_suite True False world0 = (Inr (3, 1, 3), w', os)"
    using e(1) by (cases "Swallow_run lib0 ''0.00'' tests_py_suite True False world0") auto
  from suite_counts [of lib0 "''0.00''" tests_py_suite True False world0,
                     THEN conjunct1, rule_format, OF r]
  have "(3::int) + 1 + 3 = int (length (tests tests_py_suite))"
    by simp
  with ex e1 s1 e show ?thesis by simp
qed

text \<open>
  C7 does not hold of every suite, since \<^verbatim>\<open>Swallow.run\<close> may return nothing: a body that raises
  \<^verbatim>\<open>KeyboardInterrupt\<close> ends the run of the suite with that exception, the second case
  is not run and no counts are returned.
\<close>

theorem suite_counts_counterexample:
  "fst (Swallow_run lib0 ''0.00''
          \<lparr>tests = [test None PyNone PyNone (raising ''f'' KeyboardInterrupt),
                    test None PyNone PyNone (passing ''g'')],
             self_setup = PyNone, self_teardown = PyNone\<rparr> True True world0)
     = Inl (raise KeyboardInterrupt [])"
  by (simp add: Swallow_run_def timer_def run_method_def run_def scope_defs client_defs
        isinstance_def raise_def print_def class_defs)

text \<open>
  Nor does \<^verbatim>\<open>Swallow.run\<close> return when a client function interferes with the capture
  scope. A body that rebinds \<^verbatim>\<open>sys.stdout\<close> to the original stream while the output is
  captured makes \<^verbatim>\<open>__exit__\<close> close that stream; the \<^verbatim>\<open>print\<close> of the verdict then
  raises \<^verbatim>\<open>ValueError\<close>, after the only case has run and passed. And a case without
  setup and teardown whose body raises \<^verbatim>\<open>ZeroDivisionError\<close> from a frame whose source
  cannot be found ends the run with \<^verbatim>\<open>OSError\<close> when errors are expanded.
\<close>

lemma suite_run_raises:
  "Swallow_run lib0 ''0.00''
     \<lparr>tests = [test None PyNone PyNone (PyFunction ''f'' no_params (rebinding StdStream))],
        self_setup = PyNone, self_teardown = PyNone\<rparr> True False world0
     = (Inl (raise ValueError ''I/O operation on closed file.''),
        world0\<lparr>out := [(StdStream, ''Testing f: '')], closed_files := {StdStream}, fresh := 1\<rparr>,
        [(Some True, None, None)]) \<and>
   fst (Swallow_run lib0 ''0.00''
          \<lparr>tests = [test None PyNone PyNone (dividing ''e'' [frame_exec])],
             self_setup = PyNone, self_teardown = PyNone\<rparr> True True world0)
     = Inl (raise OSError ''could not get source code'')"
  by (simp add: Swallow_run_def timer_def run_method_def report_def run_def scope_defs
        client_defs rebinding_def print_def raise_def dividing_def isinstance_def class_defs
        sys_exc_info_def print_exception_def get_meaningful_expression_def lib0_def
        frame_exec_def print_stderr_def Let_def)

section \<open>The diagnostic expander\<close>





end
